theory Spec2Isabelle
  imports Main "HOL-Library.Sublist" "HOL-Library.AList"
begin

section \<open>JavaScript values and the built-ins the code calls\<close>

text \<open>
  The sources are TypeScript. Values that cross the adapter as \<open>any\<close>, and the payloads
  of parts, are JSON data. A number is kept as its decimal text (floating point is not
  modelled); an object is its list of own properties in insertion order, which is the
  order \<open>JSON.stringify\<close> prints. A string is a list of 8-bit code units.
\<close>

datatype json =
    JNull
  | JBool bool
  | JNum string
  | JStr string
  | JArr "json list"
  | JObj "(string \<times> json) list"

type_synonym js_object = "(string \<times> json) list"

text \<open>Truthiness of a value (\<open>!!v\<close>), and of an optional string (\<open>undefined\<close> is falsy).\<close>

definition num_is_zero :: "string \<Rightarrow> bool" where
  "num_is_zero n =
     list_all (\<lambda>c. c = CHR ''0'' \<or> c = CHR ''.'' \<or> c = CHR ''-'')
       (takeWhile (\<lambda>c. c \<noteq> CHR ''e'' \<and> c \<noteq> CHR ''E'') n)"

fun js_truthy :: "json \<Rightarrow> bool" where
  "js_truthy JNull = False"
| "js_truthy (JBool b) = b"
| "js_truthy (JNum n) = (\<not> num_is_zero n)"
| "js_truthy (JStr s) = (s \<noteq> [])"
| "js_truthy (JArr xs) = True"
| "js_truthy (JObj kvs) = True"

fun truthy_opt :: "json option \<Rightarrow> bool" where
  "truthy_opt None = False"
| "truthy_opt (Some v) = js_truthy v"

fun truthy_str :: "string option \<Rightarrow> bool" where
  "truthy_str None = False"
| "truthy_str (Some s) = (s \<noteq> [])"

text \<open>An optional string interpolated into a template literal.\<close>

fun template :: "string option \<Rightarrow> string" where
  "template None = ''undefined''"
| "template (Some s) = s"

text \<open>\<open>String.prototype.includes\<close>, \<open>trim\<close>, and \<open>Array.prototype.join\<close> on strings.\<close>

fun str_includes :: "string \<Rightarrow> string \<Rightarrow> bool" where
  "str_includes [] needle = (needle = [])"
| "str_includes (c # cs) needle = (prefix needle (c # cs) \<or> str_includes cs needle)"

definition js_space :: "char \<Rightarrow> bool" where
  "js_space c = (c = CHR 0x09 \<or> c = CHR 0x0A \<or> c = CHR 0x0B \<or> c = CHR 0x0C
                 \<or> c = CHR 0x0D \<or> c = CHR 0x20 \<or> c = CHR 0xA0)"

definition trim :: "string \<Rightarrow> string" where
  "trim s = rev (dropWhile js_space (rev (dropWhile js_space s)))"

fun join :: "string \<Rightarrow> string list \<Rightarrow> string" where
  "join sep [] = []"
| "join sep [x] = x"
| "join sep (x # y # ys) = x @ sep @ join sep (y # ys)"

text \<open>
  \<open>JSON.stringify(value, null, gap)\<close>: the serialisation of ECMAScript's
  SerializeJSONProperty, with \<open>gap\<close> empty for the compact form and two spaces for
  \<open>JSON.stringify(v, null, 2)\<close>.
\<close>

definition hex_digit :: "nat \<Rightarrow> char" where
  "hex_digit n = ''0123456789abcdef'' ! n"

definition quote_char :: "char \<Rightarrow> string" where
  "quote_char c =
     (if c = CHR 0x22 then [CHR 0x5C, CHR 0x22]
      else if c = CHR 0x5C then [CHR 0x5C, CHR 0x5C]
      else if c = CHR 0x08 then [CHR 0x5C, CHR ''b'']
      else if c = CHR 0x09 then [CHR 0x5C, CHR ''t'']
      else if c = CHR 0x0A then [CHR 0x5C, CHR ''n'']
      else if c = CHR 0x0C then [CHR 0x5C, CHR ''f'']
      else if c = CHR 0x0D then [CHR 0x5C, CHR ''r'']
      else if (of_char c :: nat) < 32
        then [CHR 0x5C, CHR ''u'', CHR ''0'', CHR ''0'',
              hex_digit (of_char c div 16), hex_digit (of_char c mod 16)]
      else [c])"

definition quote :: "string \<Rightarrow> string" where
  "quote s = [CHR 0x22] @ concat (map quote_char s) @ [CHR 0x22]"

definition wrap_members ::
  "string \<Rightarrow> string \<Rightarrow> string \<Rightarrow> string \<Rightarrow> string list \<Rightarrow> string" where
  "wrap_members opn cls gap stepback partial =
     (if partial = [] then opn @ cls
      else if gap = [] then opn @ join '','' partial @ cls
      else opn @ [CHR 0x0A] @ (stepback @ gap)
             @ join ('','' @ [CHR 0x0A] @ (stepback @ gap)) partial
             @ [CHR 0x0A] @ stepback @ cls)"

fun serialize :: "string \<Rightarrow> string \<Rightarrow> json \<Rightarrow> string" where
  "serialize gap ind JNull = ''null''"
| "serialize gap ind (JBool b) = (if b then ''true'' else ''false'')"
| "serialize gap ind (JNum n) = n"
| "serialize gap ind (JStr s) = quote s"
| "serialize gap ind (JArr xs) =
     wrap_members ''['' '']'' gap ind (map (serialize gap (ind @ gap)) xs)"
| "serialize gap ind (JObj kvs) =
     wrap_members ''{'' ''}'' gap ind
       (map (\<lambda>(k, v). quote k @ '':'' @ (if gap = [] then [] else '' '')
                         @ serialize gap (ind @ gap) v) kvs)"

definition JSON_stringify :: "json \<Rightarrow> string" where
  "JSON_stringify v = serialize [] [] v"

definition JSON_stringify_2 :: "json \<Rightarrow> string" where
  "JSON_stringify_2 v = serialize ''  '' [] v"


section \<open>Response extraction utilities (generateContentResponseUtilities.ts)\<close>

text \<open>
  A \<open>Part\<close> is an object with optional properties (\<open>text\<close>, \<open>functionCall\<close>, ...); a
  response holds optional candidates, each with an optional content of optional parts.
\<close>

type_synonym Part = js_object

record Content =
  parts :: "Part list option"
  role :: "string option"

record Candidate =
  content :: "Content option"

record UsageMetadata =
  promptTokenCount :: "json option"
  candidatesTokenCount :: "json option"
  totalTokenCount :: "json option"

record GenerateContentResponse =
  candidates :: "Candidate list option"
  usageMetadata :: "UsageMetadata option"

text \<open>\<open>part.text\<close> when \<open>typeof part.text === 'string'\<close>.\<close>

definition part_text :: "Part \<Rightarrow> string option" where
  "part_text p = (case map_of p ''text'' of Some (JStr s) \<Rightarrow> Some s | _ \<Rightarrow> None)"

definition fence :: string where
  "fence = [CHR 0x60, CHR 0x60, CHR 0x60]"

definition closing_fence :: string where
  "closing_fence = CHR 0x0A # fence"

definition is_lower :: "char \<Rightarrow> bool" where
  "is_lower c = (97 \<le> (of_char c :: nat) \<and> (of_char c :: nat) \<le> 122)"

text \<open>
  The first \<open>replace\<close> of \<open>stripMarkdownCodeBlocks\<close>, with the pattern: start of text,
  three backquotes, \<open>[a-z]*\<close>, line feed. The match can only be the three backquotes,
  the longest run of lower-case letters after them, and a line feed.
\<close>

definition starts_with_open_fence :: "string \<Rightarrow> bool" where
  "starts_with_open_fence s =
     (prefix fence s \<and>
      (case dropWhile is_lower (drop 3 s) of [] \<Rightarrow> False | c # rest \<Rightarrow> c = CHR 0x0A))"

definition replace_open_fence :: "string \<Rightarrow> string" where
  "replace_open_fence s =
     (if starts_with_open_fence s then tl (dropWhile is_lower (drop 3 s)) else s)"

text \<open>The second \<open>replace\<close>: a line feed and three backquotes at the end of the text.\<close>

definition replace_close_fence :: "string \<Rightarrow> string" where
  "replace_close_fence s =
     (if suffix closing_fence s then take (length s - 4) s else s)"

definition stripMarkdownCodeBlocks :: "string \<Rightarrow> string" where
  "stripMarkdownCodeBlocks s = replace_close_fence (replace_open_fence s)"

text \<open>\<open>response.candidates?.[0]?.content?.parts\<close>.\<close>

definition first_candidate_parts :: "GenerateContentResponse \<Rightarrow> Part list option" where
  "first_candidate_parts response =
     (case candidates response of
        None \<Rightarrow> None
      | Some [] \<Rightarrow> None
      | Some (c # cs) \<Rightarrow> (case content c of None \<Rightarrow> None | Some ct \<Rightarrow> parts ct))"

text \<open>\<open>parts.map((part) => part.text).filter((text) => typeof text === 'string')\<close>.\<close>

definition textSegments :: "Part list \<Rightarrow> string list" where
  "textSegments ps = List.map_filter part_text ps"

text \<open>The text parts of the first candidate (none when it has no parts).\<close>

definition first_candidate_texts :: "GenerateContentResponse \<Rightarrow> string list" where
  "first_candidate_texts response =
     (case first_candidate_parts response of None \<Rightarrow> [] | Some ps \<Rightarrow> textSegments ps)"

definition getResponseTextFromParts :: "Part list option \<Rightarrow> string option" where
  "getResponseTextFromParts ps_opt =
     (case ps_opt of
        None \<Rightarrow> None
      | Some ps \<Rightarrow>
          if length (textSegments ps) = 0 then None
          else Some (stripMarkdownCodeBlocks (join [] (textSegments ps))))"

definition getResponseText :: "GenerateContentResponse \<Rightarrow> string option" where
  "getResponseText response =
     (case first_candidate_parts response of
        None \<Rightarrow> None
      | Some ps \<Rightarrow>
          if length (textSegments ps) = 0 then None
          else Some (stripMarkdownCodeBlocks (join [] (textSegments ps))))"

text \<open>
  \<open>parts.filter((part) => !!part.functionCall).map((part) => part.functionCall)\<close>, absent
  when empty.
\<close>

definition functionCallParts :: "Part list \<Rightarrow> json list" where
  "functionCallParts ps =
     List.map_filter
       (\<lambda>p. case map_of p ''functionCall'' of
              None \<Rightarrow> None
            | Some fc \<Rightarrow> if js_truthy fc then Some fc else None) ps"

definition getFunctionCallsFromParts :: "Part list option \<Rightarrow> json list option" where
  "getFunctionCallsFromParts ps_opt =
     (case ps_opt of
        None \<Rightarrow> None
      | Some ps \<Rightarrow>
          if length (functionCallParts ps) > 0 then Some (functionCallParts ps) else None)"

definition getFunctionCalls :: "GenerateContentResponse \<Rightarrow> json list option" where
  "getFunctionCalls response =
     (case first_candidate_parts response of
        None \<Rightarrow> None
      | Some ps \<Rightarrow>
          if length (functionCallParts ps) > 0 then Some (functionCallParts ps) else None)"

definition getFunctionCallsAsJson :: "GenerateContentResponse \<Rightarrow> string option" where
  "getFunctionCallsAsJson response =
     (case getFunctionCalls response of
        None \<Rightarrow> None
      | Some functionCalls \<Rightarrow> Some (JSON_stringify_2 (JArr functionCalls)))"

definition getFunctionCallsFromPartsAsJson :: "Part list option \<Rightarrow> string option" where
  "getFunctionCallsFromPartsAsJson ps_opt =
     (case getFunctionCallsFromParts ps_opt of
        None \<Rightarrow> None
      | Some functionCalls \<Rightarrow> Some (JSON_stringify_2 (JArr functionCalls)))"

text \<open>The shared body of the two \<open>getStructuredResponse\<close> functions.\<close>

definition structured :: "string option \<Rightarrow> string option \<Rightarrow> string option" where
  "structured textContent functionCallsJson =
     (if truthy_str textContent \<and> truthy_str functionCallsJson
        then Some (template textContent @ [CHR 0x0A] @ template functionCallsJson)
      else if truthy_str textContent then textContent
      else if truthy_str functionCallsJson then functionCallsJson
      else None)"

definition getStructuredResponse :: "GenerateContentResponse \<Rightarrow> string option" where
  "getStructuredResponse response =
     structured (getResponseText response) (getFunctionCallsAsJson response)"

definition getStructuredResponseFromParts :: "Part list option \<Rightarrow> string option" where
  "getStructuredResponseFromParts ps_opt =
     structured (getResponseTextFromParts ps_opt) (getFunctionCallsFromPartsAsJson ps_opt)"


section \<open>Objects built by spreading, and \<open>JSON.parse\<close>\<close>

text \<open>
  An object literal with a spread, and an assignment \<open>obj[k] = v\<close>: a key that is already
  there keeps its place and takes the new value, a new key goes last.
\<close>

definition spread :: "('k \<times> 'v) list \<Rightarrow> ('k \<times> 'v) list \<Rightarrow> ('k \<times> 'v) list" where
  "spread target source = fold (\<lambda>(k, v). AList.update k v) source target"

text \<open>
  \<open>JSON.parse\<close>: a recursive-descent parser of the JSON grammar, \<open>None\<close> where the
  runtime raises a SyntaxError. The fuel bounds the depth of the nested calls, of
  which every second one consumes a character; \<open>JSON_parse\<close> starts with twice the
  length of the text and two more. A number keeps its text, a unicode escape keeps its
  low byte, and a repeated key keeps its first place and its last value; a key that
  is an array index stays where the text has it (the runtime lists such keys first,
  in ascending order). No statement below depends on the text of a number, on a
  unicode escape or on the order of the keys of a parsed object.
\<close>

definition json_ws :: "char \<Rightarrow> bool" where
  "json_ws c = (c = CHR 0x20 \<or> c = CHR 0x09 \<or> c = CHR 0x0A \<or> c = CHR 0x0D)"

definition is_digit :: "char \<Rightarrow> bool" where
  "is_digit c = (48 \<le> (of_char c :: nat) \<and> (of_char c :: nat) \<le> 57)"

definition hex_val :: "char \<Rightarrow> nat option" where
  "hex_val c =
     (let n = (of_char c :: nat) in
      if 48 \<le> n \<and> n \<le> 57 then Some (n - 48)
      else if 97 \<le> n \<and> n \<le> 102 then Some (n - 87)
      else if 65 \<le> n \<and> n \<le> 70 then Some (n - 55)
      else None)"

definition unescape :: "char \<Rightarrow> char option" where
  "unescape e =
     (if e = CHR 0x22 \<or> e = CHR 0x5C \<or> e = CHR ''/'' then Some e
      else if e = CHR ''b'' then Some (CHR 0x08)
      else if e = CHR ''f'' then Some (CHR 0x0C)
      else if e = CHR ''n'' then Some (CHR 0x0A)
      else if e = CHR ''r'' then Some (CHR 0x0D)
      else if e = CHR ''t'' then Some (CHR 0x09)
      else None)"

fun parse_chars :: "string \<Rightarrow> (string \<times> string) option" where
  "parse_chars [] = None"
| "parse_chars (c # cs) =
     (if c = CHR 0x22 then Some ([], cs)
      else if c = CHR 0x5C then
        (case cs of
           [] \<Rightarrow> None
         | e # r \<Rightarrow>
             if e = CHR ''u'' then
               (case r of
                  h1 # h2 # h3 # h4 # r' \<Rightarrow>
                    (case (hex_val h1, hex_val h2, hex_val h3, hex_val h4) of
                       (Some n1, Some n2, Some n3, Some n4) \<Rightarrow>
                         map_option (\<lambda>(s, t). (char_of (n3 * 16 + n4) # s, t)) (parse_chars r')
                     | _ \<Rightarrow> None)
                | _ \<Rightarrow> None)
             else
               (case unescape e of
                  None \<Rightarrow> None
                | Some x \<Rightarrow> map_option (\<lambda>(s, t). (x # s, t)) (parse_chars r)))
      else if (of_char c :: nat) < 32 then None
      else map_option (\<lambda>(s, t). (c # s, t)) (parse_chars cs))"

definition parse_frac :: "string \<Rightarrow> (string \<times> string) option" where
  "parse_frac s =
     (case s of
        [] \<Rightarrow> Some ([], s)
      | c # r \<Rightarrow>
          if c = CHR ''.'' then
            (if takeWhile is_digit r = [] then None
             else Some (c # takeWhile is_digit r, dropWhile is_digit r))
          else Some ([], s))"

definition parse_exp :: "string \<Rightarrow> (string \<times> string) option" where
  "parse_exp s =
     (case s of
        [] \<Rightarrow> Some ([], s)
      | c # r \<Rightarrow>
          if c = CHR ''e'' \<or> c = CHR ''E'' then
            (let sign = (case r of [] \<Rightarrow> [] | d # ds \<Rightarrow> if d = CHR ''+'' \<or> d = CHR ''-'' then [d] else []);
                 r' = drop (length sign) r
             in if takeWhile is_digit r' = [] then None
                else Some (c # sign @ takeWhile is_digit r', dropWhile is_digit r'))
          else Some ([], s))"

definition parse_number :: "string \<Rightarrow> (string \<times> string) option" where
  "parse_number s =
     (let sign = (if prefix ''-'' s then ''-'' else []);
          s1 = drop (length sign) s;
          ip = takeWhile is_digit s1
      in if ip = [] \<or> (length ip > 1 \<and> hd ip = CHR ''0'') then None
         else
           (case parse_frac (dropWhile is_digit s1) of
              None \<Rightarrow> None
            | Some (fp, s3) \<Rightarrow>
                (case parse_exp s3 of
                   None \<Rightarrow> None
                 | Some (ep, s4) \<Rightarrow> Some (sign @ ip @ fp @ ep, s4))))"

fun parse_value :: "nat \<Rightarrow> string \<Rightarrow> (json \<times> string) option"
  and parse_elements :: "nat \<Rightarrow> string \<Rightarrow> (json list \<times> string) option"
  and parse_members :: "nat \<Rightarrow> string \<Rightarrow> (js_object \<times> string) option"
where
  "parse_value 0 s = None"
| "parse_value (Suc n) s =
     (case dropWhile json_ws s of
        [] \<Rightarrow> None
      | c # cs \<Rightarrow>
          if c = CHR ''{'' then
            (case dropWhile json_ws cs of
               [] \<Rightarrow> None
             | d # ds \<Rightarrow>
                 if d = CHR ''}'' then Some (JObj [], ds)
                 else map_option (\<lambda>(m, r). (JObj (spread [] m), r)) (parse_members n (d # ds)))
          else if c = CHR ''['' then
            (case dropWhile json_ws cs of
               [] \<Rightarrow> None
             | d # ds \<Rightarrow>
                 if d = CHR '']'' then Some (JArr [], ds)
                 else map_option (\<lambda>(xs, r). (JArr xs, r)) (parse_elements n (d # ds)))
          else if c = CHR 0x22 then map_option (\<lambda>(x, r). (JStr x, r)) (parse_chars cs)
          else if prefix ''true'' (c # cs) then Some (JBool True, drop 4 (c # cs))
          else if prefix ''false'' (c # cs) then Some (JBool False, drop 5 (c # cs))
          else if prefix ''null'' (c # cs) then Some (JNull, drop 4 (c # cs))
          else map_option (\<lambda>(x, r). (JNum x, r)) (parse_number (c # cs)))"
| "parse_elements 0 s = None"
| "parse_elements (Suc n) s =
     (case parse_value n s of
        None \<Rightarrow> None
      | Some (v, r) \<Rightarrow>
          (case dropWhile json_ws r of
             [] \<Rightarrow> None
           | c # cs \<Rightarrow>
               if c = CHR '']'' then Some ([v], cs)
               else if c = CHR '','' then
                 map_option (\<lambda>(vs, r'). (v # vs, r')) (parse_elements n cs)
               else None))"
| "parse_members 0 s = None"
| "parse_members (Suc n) s =
     (case dropWhile json_ws s of
        [] \<Rightarrow> None
      | c # cs \<Rightarrow>
          if c = CHR 0x22 then
            (case parse_chars cs of
               None \<Rightarrow> None
             | Some (k, r) \<Rightarrow>
                 (case dropWhile json_ws r of
                    [] \<Rightarrow> None
                  | c2 # r2 \<Rightarrow>
                      if c2 = CHR '':'' then
                        (case parse_value n r2 of
                           None \<Rightarrow> None
                         | Some (v, r3) \<Rightarrow>
                             (case dropWhile json_ws r3 of
                                [] \<Rightarrow> None
                              | c3 # r4 \<Rightarrow>
                                  if c3 = CHR ''}'' then Some ([(k, v)], r4)
                                  else if c3 = CHR '','' then
                                    map_option (\<lambda>(m, r5). ((k, v) # m, r5)) (parse_members n r4)
                                  else None))
                      else None))
          else None)"

definition JSON_parse :: "string \<Rightarrow> json option" where
  "JSON_parse s =
     (case parse_value (2 * length s + 2) s of
        None \<Rightarrow> None
      | Some (v, r) \<Rightarrow> if dropWhile json_ws r = [] then Some v else None)"

section \<open>The OpenAI-compatible adapter (llmProvider.ts)\<close>

text \<open>
  Every failure the adapter raises is \<open>new Error(message)\<close>; the runtime itself raises a
  TypeError when a property of \<open>null\<close> is read or a value that is not a function is
  called.
\<close>

datatype error = Error string | TypeError

record LLMProviderConfig =
  apiUrl :: string
  apiKey :: "string option"
  model :: string
  headers :: "(string \<times> string) list option"
  proxy :: "string option"

record GenerateContentParameters =
  gp_model :: string
  contents :: json
  config :: "json option"

record CountTokensResponse =
  totalTokens :: nat

text \<open>
  The network: \<open>fetch\<close> answers a request with a response or rejects with a message;
  reading the body of a response (\<open>response.text()\<close>) gives the text or rejects with a
  message. The environment also gives the message of the SyntaxError that \<open>JSON.parse\<close>
  raises on a text. A call returns its result and the requests it sent, in order.
  The \<open>console.log\<close> lines are left out.
\<close>

record http_request =
  req_url :: string
  req_method :: string
  req_headers :: "(string \<times> string) list"
  req_body :: string

record http_response =
  status :: nat
  text_result :: "string + string"

record environment =
  fetch :: "http_request \<Rightarrow> string + http_response"
  parse_error_message :: "string \<Rightarrow> string"

type_synonym 'a io = "(error + 'a) \<times> http_request list"

text \<open>
  Reading a property: of \<open>null\<close> it raises, of an object it is the own property, and no
  other value has a property of the names the code reads.
\<close>

fun js_prop :: "json \<Rightarrow> string \<Rightarrow> error + json option" where
  "js_prop JNull k = Inl TypeError"
| "js_prop (JObj kvs) k = Inr (map_of kvs k)"
| "js_prop v k = Inr None"

text \<open>\<open>String(v)\<close>; inside \<open>Array.prototype.join\<close> a \<open>null\<close> element is the empty text.\<close>

fun js_toString :: "json \<Rightarrow> string" where
  "js_toString JNull = ''null''"
| "js_toString (JBool b) = (if b then ''true'' else ''false'')"
| "js_toString (JNum n) = n"
| "js_toString (JStr s) = s"
| "js_toString (JArr xs) =
     join '','' (map (\<lambda>x. case x of JNull \<Rightarrow> [] | _ \<Rightarrow> js_toString x) xs)"
| "js_toString (JObj kvs) = ''[object Object]''"

text \<open>\<open>Array.prototype.map\<close> and \<open>filter\<close> with a callback that may raise.\<close>

fun array_map :: "('a \<Rightarrow> error + 'b) \<Rightarrow> 'a list \<Rightarrow> error + 'b list" where
  "array_map f [] = Inr []"
| "array_map f (x # xs) =
     (case f x of
        Inl e \<Rightarrow> Inl e
      | Inr y \<Rightarrow> (case array_map f xs of Inl e \<Rightarrow> Inl e | Inr ys \<Rightarrow> Inr (y # ys)))"

fun array_filter :: "('a \<Rightarrow> error + bool) \<Rightarrow> 'a list \<Rightarrow> error + 'a list" where
  "array_filter f [] = Inr []"
| "array_filter f (x # xs) =
     (case f x of
        Inl e \<Rightarrow> Inl e
      | Inr b \<Rightarrow>
          (case array_filter f xs of
             Inl e \<Rightarrow> Inl e
           | Inr ys \<Rightarrow> Inr (if b then x # ys else ys)))"

text \<open>\<open>Array.isArray(contents) ? contents : [contents]\<close>.\<close>

definition contentArray :: "json \<Rightarrow> json list" where
  "contentArray cs = (case cs of JArr xs \<Rightarrow> xs | _ \<Rightarrow> [cs])"

text \<open>
  \<open>convertContentsToMessages\<close>. For a content with a role and parts, the parts whose
  \<open>text\<close> is truthy are kept and their texts joined by a line feed; \<open>parts\<close> that is not
  an array has no \<open>filter\<close> to call.
\<close>

definition part_text_truthy :: "json \<Rightarrow> error + bool" where
  "part_text_truthy part =
     (case js_prop part ''text'' of Inl e \<Rightarrow> Inl e | Inr t \<Rightarrow> Inr (truthy_opt t))"

definition part_text_value :: "json \<Rightarrow> error + string" where
  "part_text_value part =
     (case js_prop part ''text'' of
        Inl e \<Rightarrow> Inl e
      | Inr None \<Rightarrow> Inr []
      | Inr (Some JNull) \<Rightarrow> Inr []
      | Inr (Some v) \<Rightarrow> Inr (js_toString v))"

definition textParts_content :: "json list \<Rightarrow> error + string" where
  "textParts_content ps =
     (case array_filter part_text_truthy ps of
        Inl e \<Rightarrow> Inl e
      | Inr textParts \<Rightarrow>
          (case array_map part_text_value textParts of
             Inl e \<Rightarrow> Inl e
           | Inr texts \<Rightarrow> Inr (join [CHR 0x0A] texts)))"

definition contentToMessage :: "json \<Rightarrow> error + json" where
  "contentToMessage c =
     (case c of
        JStr s \<Rightarrow> Inr (JObj [(''role'', JStr ''user''), (''content'', JStr s)])
      | _ \<Rightarrow>
        (case js_prop c ''role'' of
           Inl e \<Rightarrow> Inl e
         | Inr r \<Rightarrow>
           (case (if truthy_opt r then js_prop c ''parts'' else Inr None) of
              Inl e \<Rightarrow> Inl e
            | Inr p \<Rightarrow>
                if truthy_opt r \<and> truthy_opt p then
                  (case p of
                     Some (JArr ps) \<Rightarrow>
                       (case textParts_content ps of
                          Inl e \<Rightarrow> Inl e
                        | Inr joined \<Rightarrow>
                            Inr (JObj [(''role'',
                                        if r = Some (JStr ''model'') then JStr ''assistant''
                                        else (case r of Some v \<Rightarrow> v | None \<Rightarrow> JNull)),
                                       (''content'', JStr joined)]))
                   | _ \<Rightarrow> Inl TypeError)
                else Inr (JObj [(''role'', JStr ''user''),
                                (''content'', JStr (JSON_stringify c))]))))"

definition convertContentsToMessages :: "json \<Rightarrow> error + json list" where
  "convertContentsToMessages cs = array_map contentToMessage (contentArray cs)"

text \<open>
  \<open>convertContentsToPrompt\<close>. For a content with parts, every part gives its \<open>text\<close> when
  that is truthy and its own serialisation otherwise, joined by a line feed; the
  contents are joined by a blank line.
\<close>

definition partToPrompt :: "json \<Rightarrow> error + string" where
  "partToPrompt part =
     (case js_prop part ''text'' of
        Inl e \<Rightarrow> Inl e
      | Inr t \<Rightarrow>
          Inr (if truthy_opt t
               then (case t of Some v \<Rightarrow> js_toString v | None \<Rightarrow> [])
               else JSON_stringify part))"

definition contentToPrompt :: "json \<Rightarrow> error + string" where
  "contentToPrompt c =
     (case c of
        JStr s \<Rightarrow> Inr s
      | _ \<Rightarrow>
        (case js_prop c ''parts'' of
           Inl e \<Rightarrow> Inl e
         | Inr p \<Rightarrow>
             if truthy_opt p then
               (case p of
                  Some (JArr ps) \<Rightarrow>
                    (case array_map partToPrompt ps of
                       Inl e \<Rightarrow> Inl e
                     | Inr texts \<Rightarrow> Inr (join [CHR 0x0A] texts))
                | _ \<Rightarrow> Inl TypeError)
             else Inr (JSON_stringify c)))"

definition convertContentsToPrompt :: "json \<Rightarrow> error + string" where
  "convertContentsToPrompt cs =
     (case array_map contentToPrompt (contentArray cs) of
        Inl e \<Rightarrow> Inl e
      | Inr texts \<Rightarrow> Inr (join [CHR 0x0A, CHR 0x0A] texts))"

text \<open>
  \<open>convertConfigToOpenAIParams(config = {})\<close>: each sampling parameter is copied when it
  is not \<open>undefined\<close>.
\<close>

definition copy_param :: "json \<Rightarrow> string \<Rightarrow> string \<Rightarrow> js_object \<Rightarrow> error + js_object" where
  "copy_param cfg source target params =
     (case js_prop cfg source of
        Inl e \<Rightarrow> Inl e
      | Inr None \<Rightarrow> Inr params
      | Inr (Some v) \<Rightarrow> Inr (AList.update target v params))"

definition convertConfigToOpenAIParams :: "json option \<Rightarrow> error + js_object" where
  "convertConfigToOpenAIParams cfg_opt =
     (let cfg = (case cfg_opt of None \<Rightarrow> JObj [] | Some c \<Rightarrow> c) in
      case copy_param cfg ''temperature'' ''temperature'' [] of
        Inl e \<Rightarrow> Inl e
      | Inr p1 \<Rightarrow>
      (case copy_param cfg ''maxOutputTokens'' ''max_tokens'' p1 of
        Inl e \<Rightarrow> Inl e
      | Inr p2 \<Rightarrow>
      (case copy_param cfg ''topP'' ''top_p'' p2 of
        Inl e \<Rightarrow> Inl e
      | Inr p3 \<Rightarrow> copy_param cfg ''stopSequences'' ''stop'' p3)))"

definition prepareGenerateContentRequest ::
  "LLMProviderConfig \<Rightarrow> GenerateContentParameters \<Rightarrow> bool \<Rightarrow> error + json" where
  "prepareGenerateContentRequest cfg request isChatCompletion =
     (if isChatCompletion then
        (case convertContentsToMessages (contents request) of
           Inl e \<Rightarrow> Inl e
         | Inr messages \<Rightarrow>
             (case convertConfigToOpenAIParams (config request) of
                Inl e \<Rightarrow> Inl e
              | Inr params \<Rightarrow>
                  Inr (JObj (spread [(''model'', JStr (model cfg)),
                                     (''messages'', JArr messages)] params))))
      else
        (case convertContentsToPrompt (contents request) of
           Inl e \<Rightarrow> Inl e
         | Inr prompt \<Rightarrow>
             (case convertConfigToOpenAIParams (config request) of
                Inl e \<Rightarrow> Inl e
              | Inr params \<Rightarrow>
                  Inr (JObj (spread [(''model'', JStr (model cfg)),
                                     (''prompt'', JStr prompt)] params)))))"

text \<open>
  The headers of \<open>makeApiRequest\<close>: the content type, the static headers of the
  configuration spread over it, then the header derived from the key.
\<close>

definition request_headers :: "LLMProviderConfig \<Rightarrow> string \<Rightarrow> (string \<times> string) list" where
  "request_headers cfg url =
     (let hs = spread [(''Content-Type'', ''application/json'')]
                 (case headers cfg of None \<Rightarrow> [] | Some static \<Rightarrow> static)
      in if truthy_str (apiKey cfg) then
           (if str_includes url ''openai.com'' \<or> str_includes url ''api.openai.com''
              then AList.update ''Authorization'' (''Bearer '' @ template (apiKey cfg)) hs
            else if str_includes url ''openrouter.ai''
              then AList.update ''Authorization'' (''Bearer '' @ template (apiKey cfg)) hs
            else AList.update ''X-API-Key'' (template (apiKey cfg)) hs)
         else hs)"

text \<open>A number in a template literal (the status is a natural number).\<close>

function number_toString :: "nat \<Rightarrow> string" where
  "number_toString n =
     (if n < 10 then [''0123456789'' ! n]
      else number_toString (n div 10) @ [''0123456789'' ! (n mod 10)])"
  by pat_completeness auto
termination
  by (relation "measure id") auto

declare number_toString.simps [simp del]

text \<open>The first 200 characters, and three dots when there are more.\<close>

definition excerpt :: "string \<Rightarrow> string" where
  "excerpt t = take 200 t @ (if length t > 200 then ''...'' else [])"

definition looks_like_json :: "string \<Rightarrow> bool" where
  "looks_like_json t = (prefix ''{'' (trim t) \<or> prefix ''['' (trim t))"

text \<open>A \<open>try\<close> block with its \<open>catch\<close>: whatever the block raises goes to the handler.\<close>

definition try_catch :: "error + 'a \<Rightarrow> (error \<Rightarrow> error + 'a) \<Rightarrow> error + 'a" where
  "try_catch block handler = (case block of Inl e \<Rightarrow> handler e | Inr v \<Rightarrow> Inr v)"

text \<open>
  The branch \<open>if (!response.ok)\<close> of \<open>makeApiRequest\<close>. The \<open>throw\<close> that carries the
  serialised JSON stands inside the \<open>try\<close> whose \<open>catch\<close> raises the error with the raw
  text.
\<close>

definition failed_response :: "environment \<Rightarrow> http_response \<Rightarrow> error + json" where
  "failed_response env response =
     (let errorText =
            (case text_result response of
               Inr t \<Rightarrow> t
             | Inl m \<Rightarrow> ''Failed to read error response: '' @ m)
      in if looks_like_json errorText then
           try_catch
             (case JSON_parse errorText of
                None \<Rightarrow> Inl (Error (parse_error_message env errorText))
              | Some errorJson \<Rightarrow>
                  Inl (Error (''API request failed with status ''
                              @ number_toString (status response) @ '': ''
                              @ JSON_stringify errorJson)))
             (\<lambda>jsonError.
                  Inl (Error (''API request failed with status ''
                              @ number_toString (status response) @ '': '' @ errorText)))
         else
           Inl (Error (''API request failed with status ''
                       @ number_toString (status response) @ ''. Server returned: ''
                       @ excerpt errorText)))"

definition successful_response :: "environment \<Rightarrow> http_response \<Rightarrow> error + json" where
  "successful_response env response =
     (case text_result response of
        Inl m \<Rightarrow> Inl (Error (''Failed to read response: '' @ m))
      | Inr responseText \<Rightarrow>
          if looks_like_json responseText then
            (case JSON_parse responseText of
               Some v \<Rightarrow> Inr v
             | None \<Rightarrow>
                 Inl (Error (''Failed to parse JSON response: ''
                             @ parse_error_message env responseText
                             @ ''. Response text: '' @ excerpt responseText)))
          else
            Inl (Error (''API returned non-JSON response. Response starts with: ''
                        @ excerpt responseText)))"

definition response_ok :: "http_response \<Rightarrow> bool" where
  "response_ok response = (200 \<le> status response \<and> status response \<le> 299)"

definition makeApiRequest ::
  "environment \<Rightarrow> LLMProviderConfig \<Rightarrow> string \<Rightarrow> json \<Rightarrow> json io" where
  "makeApiRequest env cfg url body =
     (let request = \<lparr>req_url = url, req_method = ''POST'',
                      req_headers = request_headers cfg url,
                      req_body = JSON_stringify body\<rparr>
      in ((case fetch env request of
             Inl m \<Rightarrow> Inl (Error (''Network error when making API request: '' @ m))
           | Inr response \<Rightarrow>
               if \<not> response_ok response then failed_response env response
               else successful_response env response),
          [request]))"

text \<open>
  \<open>parseGenerateContentResponse\<close>. \<open>response.choices.length > 0\<close> is read for an array
  and a string by their length, and for an object by an own \<open>length\<close> that is a number
  or a boolean (a length of any other kind counts as not positive here).
\<close>

definition has_elements :: "json \<Rightarrow> bool" where
  "has_elements v =
     (case v of
        JArr xs \<Rightarrow> xs \<noteq> []
      | JStr s \<Rightarrow> s \<noteq> []
      | JObj kvs \<Rightarrow>
          (case map_of kvs ''length'' of
             Some (JNum n) \<Rightarrow> \<not> num_is_zero n \<and> \<not> prefix ''-'' n
           | Some (JBool b) \<Rightarrow> b
           | _ \<Rightarrow> False)
      | _ \<Rightarrow> False)"

definition first_element :: "json \<Rightarrow> json option" where
  "first_element v =
     (case v of
        JArr xs \<Rightarrow> (case xs of [] \<Rightarrow> None | x # _ \<Rightarrow> Some x)
      | JStr s \<Rightarrow> (case s of [] \<Rightarrow> None | c # _ \<Rightarrow> Some (JStr [c]))
      | JObj kvs \<Rightarrow> map_of kvs ''0''
      | _ \<Rightarrow> None)"

text \<open>\<open>choice.message?.content || ''\<close> and \<open>choice.text || ''\<close>.\<close>

definition or_empty :: "json option \<Rightarrow> json" where
  "or_empty v = (case v of None \<Rightarrow> JStr [] | Some x \<Rightarrow> if js_truthy x then x else JStr [])"

definition choice_text :: "json option \<Rightarrow> bool \<Rightarrow> error + json" where
  "choice_text choice isChatCompletion =
     (case choice of
        None \<Rightarrow> Inl TypeError
      | Some ch \<Rightarrow>
          if isChatCompletion then
            (case js_prop ch ''message'' of
               Inl e \<Rightarrow> Inl e
             | Inr None \<Rightarrow> Inr (JStr [])
             | Inr (Some JNull) \<Rightarrow> Inr (JStr [])
             | Inr (Some m) \<Rightarrow>
                 (case js_prop m ''content'' of Inl e \<Rightarrow> Inl e | Inr c \<Rightarrow> Inr (or_empty c)))
          else
            (case js_prop ch ''text'' of Inl e \<Rightarrow> Inl e | Inr t \<Rightarrow> Inr (or_empty t)))"

definition usage_of :: "json \<Rightarrow> UsageMetadata option" where
  "usage_of response =
     (case js_prop response ''usage'' of
        Inr (Some usage) \<Rightarrow>
          if js_truthy usage then
            Some \<lparr>promptTokenCount =
                     (case js_prop usage ''prompt_tokens'' of Inr v \<Rightarrow> v | Inl e \<Rightarrow> None),
                  candidatesTokenCount =
                     (case js_prop usage ''completion_tokens'' of Inr v \<Rightarrow> v | Inl e \<Rightarrow> None),
                  totalTokenCount =
                     (case js_prop usage ''total_tokens'' of Inr v \<Rightarrow> v | Inl e \<Rightarrow> None)\<rparr>
          else None
      | _ \<Rightarrow> None)"

definition parseGenerateContentResponse ::
  "json \<Rightarrow> bool \<Rightarrow> error + GenerateContentResponse" where
  "parseGenerateContentResponse response isChatCompletion =
     (case js_prop response ''choices'' of
        Inl e \<Rightarrow> Inl e
      | Inr choices \<Rightarrow>
          if truthy_opt choices \<and> (case choices of Some cs \<Rightarrow> has_elements cs | None \<Rightarrow> False)
          then
            (case choice_text (case choices of Some cs \<Rightarrow> first_element cs | None \<Rightarrow> None)
                    isChatCompletion of
               Inl e \<Rightarrow> Inl e
             | Inr t \<Rightarrow>
                 Inr \<lparr>candidates =
                        Some [\<lparr>content = Some \<lparr>parts = Some [[(''text'', t)]],
                                               role = Some ''model''\<rparr>\<rparr>],
                      usageMetadata = usage_of response\<rparr>)
          else Inr \<lparr>candidates = None, usageMetadata = usage_of response\<rparr>)"

text \<open>The four operations of the adapter, and its name.\<close>

definition generateContent ::
  "environment \<Rightarrow> LLMProviderConfig \<Rightarrow> GenerateContentParameters
     \<Rightarrow> GenerateContentResponse io" where
  "generateContent env cfg request =
     (let isChatCompletion = str_includes (apiUrl cfg) ''chat/completions'' in
      case prepareGenerateContentRequest cfg request isChatCompletion of
        Inl e \<Rightarrow> (Inl e, [])
      | Inr requestBody \<Rightarrow>
          (case makeApiRequest env cfg (apiUrl cfg) requestBody of
             (Inl e, sent) \<Rightarrow> (Inl e, sent)
           | (Inr response, sent) \<Rightarrow>
               (parseGenerateContentResponse response isChatCompletion, sent)))"

definition generateContentStream ::
  "environment \<Rightarrow> LLMProviderConfig \<Rightarrow> GenerateContentParameters
     \<Rightarrow> GenerateContentResponse list io" where
  "generateContentStream env cfg request =
     (case generateContent env cfg request of
        (Inl e, sent) \<Rightarrow> (Inl e, sent)
      | (Inr response, sent) \<Rightarrow> (Inr [response], sent))"

definition countTokens ::
  "environment \<Rightarrow> LLMProviderConfig \<Rightarrow> 'request \<Rightarrow> CountTokensResponse io" where
  "countTokens env cfg request = (Inr \<lparr>totalTokens = 0\<rparr>, [])"

definition embedContent ::
  "environment \<Rightarrow> LLMProviderConfig \<Rightarrow> 'request \<Rightarrow> 'response io" where
  "embedContent env cfg request =
     (Inl (Error ''Embedding not supported for this provider''), [])"

definition getProviderName :: string where
  "getProviderName = ''OpenAICompatible''"

section \<open>Provider selection (contentGenerator.ts)\<close>

text \<open>
  The process: the environment variables the factory reads (absent or a string), and
  the version, platform and architecture of the runtime.
\<close>

record process_env =
  LLM_API_URL :: "string option"
  LLM_API_KEY :: "string option"
  LLM_MODEL :: "string option"
  CLI_VERSION :: "string option"
  process_version :: string
  process_platform :: string
  process_arch :: string

text \<open>
  The enum \<open>AuthType\<close> is a set of strings at run time, and the configuration may hold
  a string that is none of them (it is read from the settings).
\<close>

definition LOGIN_WITH_GOOGLE :: string where
  "LOGIN_WITH_GOOGLE = ''oauth-personal''"

definition USE_GEMINI :: string where
  "USE_GEMINI = ''gemini-api-key''"

definition USE_VERTEX_AI :: string where
  "USE_VERTEX_AI = ''vertex-ai''"

definition CLOUD_SHELL :: string where
  "CLOUD_SHELL = ''cloud-shell''"

record ContentGeneratorConfig =
  cg_model :: string
  cg_apiKey :: "string option"
  vertexai :: "bool option"
  authType :: "string option"
  cg_proxy :: "string option"

text \<open>
  What the factory returns: the adapter over its configuration, the generator that
  \<open>createCodeAssistContentGenerator\<close> (not part of these sources) is asked for, with
  the arguments of that call, or the wrapper over a \<open>GoogleGenAI\<close> client with the
  options it was built from.
\<close>

datatype 'c ContentGenerator =
    OpenAICompatibleProvider LLMProviderConfig
  | CodeAssistContentGenerator "(string \<times> string) list" string 'c "string option"
  | GoogleGenAIWrapper "string option" "bool option" "(string \<times> string) list"

definition createLLMProvider :: "LLMProviderConfig \<Rightarrow> 'c ContentGenerator" where
  "createLLMProvider cfg = OpenAICompatibleProvider cfg"

definition user_agent :: "process_env \<Rightarrow> (string \<times> string) list" where
  "user_agent penv =
     (let version = (if truthy_str (CLI_VERSION penv) then template (CLI_VERSION penv)
                     else process_version penv)
      in [(''User-Agent'',
           ''GeminiCLI/'' @ version @ '' ('' @ process_platform penv @ ''; ''
             @ process_arch penv @ '')'')])"

text \<open>
  The factory is an \<open>async\<close> function. A call of such a function never throws to its
  caller: it returns a promise, which is rejected with what the body throws and
  fulfilled with what the body returns. The body of the factory holds no \<open>await\<close>, so
  its promise is settled when the call returns; in the code-assist branch the
  generator stands for the outcome of \<open>createCodeAssistContentGenerator\<close>.
\<close>

datatype 'a promise = Resolved 'a | Rejected error

datatype 'a call = Throws error | Returns 'a

definition async :: "error + 'a \<Rightarrow> 'a promise call" where
  "async body = Returns (case body of Inl e \<Rightarrow> Rejected e | Inr v \<Rightarrow> Resolved v)"

definition createContentGenerator ::
  "process_env \<Rightarrow> ContentGeneratorConfig \<Rightarrow> 'c \<Rightarrow> string option
     \<Rightarrow> 'c ContentGenerator promise call" where
  "createContentGenerator penv cfg gcConfig sessionId =
     async
       (if truthy_str (LLM_API_URL penv) \<and> truthy_str (LLM_API_KEY penv)
           \<and> truthy_str (LLM_MODEL penv)
        then Inr (createLLMProvider
                    \<lparr>apiUrl = template (LLM_API_URL penv),
                     apiKey = LLM_API_KEY penv,
                     model = template (LLM_MODEL penv),
                     headers = Some (user_agent penv),
                     proxy = cg_proxy cfg\<rparr>)
        else if authType cfg = Some LOGIN_WITH_GOOGLE \<or> authType cfg = Some CLOUD_SHELL
        then Inr (CodeAssistContentGenerator (user_agent penv) (template (authType cfg))
                    gcConfig sessionId)
        else if authType cfg = Some USE_GEMINI \<or> authType cfg = Some USE_VERTEX_AI
        then Inr (GoogleGenAIWrapper
                    (if cg_apiKey cfg = Some [] then None else cg_apiKey cfg)
                    (vertexai cfg) (user_agent penv))
        else Inl (Error (''Error creating contentGenerator: Unsupported authType: ''
                         @ template (authType cfg))))"

section \<open>Notions used in the statements\<close>

text \<open>
  The kinds of error of the specification, told apart by the message the code raises
  for each: a network error is the failure of \<open>fetch\<close> or of reading the body of a
  successful response, an API error is the failure on a status outside 200 to 299.
\<close>

definition is_network_error :: "error \<Rightarrow> bool" where
  "is_network_error e =
     (case e of
        Error m \<Rightarrow> prefix ''Network error when making API request: '' m
                   \<or> prefix ''Failed to read response: '' m
      | TypeError \<Rightarrow> False)"

definition is_api_error :: "error \<Rightarrow> bool" where
  "is_api_error e =
     (case e of
        Error m \<Rightarrow> prefix ''API request failed with status '' m
      | TypeError \<Rightarrow> False)"

definition has_field :: "string \<Rightarrow> json \<Rightarrow> bool" where
  "has_field k v = (case v of JObj kvs \<Rightarrow> map_of kvs k \<noteq> None | _ \<Rightarrow> False)"

text \<open>
  A request that the translation accepts: no content and no part is \<open>null\<close>, the
  \<open>parts\<close> of a content, when truthy, is an array, and the configuration is not \<open>null\<close>.
  This holds of every request of the declared type \<open>GenerateContentParameters\<close>.
\<close>

definition content_ok :: "json \<Rightarrow> bool" where
  "content_ok c =
     (case c of
        JNull \<Rightarrow> False
      | JObj kvs \<Rightarrow>
          (case map_of kvs ''parts'' of
             None \<Rightarrow> True
           | Some (JArr ps) \<Rightarrow> list_all (\<lambda>p. p \<noteq> JNull) ps
           | Some v \<Rightarrow> \<not> js_truthy v)
      | _ \<Rightarrow> True)"

definition request_ok :: "GenerateContentParameters \<Rightarrow> bool" where
  "request_ok request =
     (list_all content_ok (contentArray (contents request)) \<and> config request \<noteq> Some JNull)"


section \<open>Example inputs\<close>

text \<open>The inputs on which the theorems below are evaluated.\<close>


definition fenced_response :: GenerateContentResponse where
  "fenced_response =
     \<lparr>candidates = Some [\<lparr>content = Some \<lparr>parts = Some
        [[(''text'', JStr (fence @ ''js'' @ [CHR 0x0A])), (''thought'', JBool False)],
         [(''functionCall'', JObj [(''name'', JStr ''f'')])],
         [(''text'', JStr (''foo'' @ closing_fence))]],
        role = Some ''model''\<rparr>\<rparr>], usageMetadata = None\<rparr>"

definition open_only_response :: GenerateContentResponse where
  "open_only_response =
     \<lparr>candidates = Some [\<lparr>content = Some \<lparr>parts = Some
        [[(''text'', JStr (fence @ ''js'' @ [CHR 0x0A] @ ''foo''))]],
        role = Some ''model''\<rparr>\<rparr>], usageMetadata = None\<rparr>"

definition empty_text_parts :: "Part list" where
  "empty_text_parts =
     [[(''text'', JStr [])], [(''functionCall'', JObj [(''name'', JStr ''f'')])]]"


definition example_env :: environment where
  "example_env = \<lparr>fetch = (\<lambda>request. Inl ''offline''),
                   parse_error_message = (\<lambda>t. ''Unexpected token'')\<rparr>"

definition local_config :: LLMProviderConfig where
  "local_config =
     \<lparr>apiUrl = ''http://localhost:8080/v1/chat/completions'', apiKey = Some ''k'',
      model = ''m'', headers = Some [(''Content-Type'', ''text/plain'')], proxy = None\<rparr>"

definition openai_config :: LLMProviderConfig where
  "openai_config =
     \<lparr>apiUrl = ''https://api.openai.com/v1/chat/completions'', apiKey = Some ''k'',
      model = ''m'', headers = Some [(''Authorization'', ''static'')], proxy = None\<rparr>"

definition generic_process :: process_env where
  "generic_process =
     \<lparr>LLM_API_URL = Some ''http://localhost:8080/v1/chat/completions'',
      LLM_API_KEY = Some ''k'', LLM_MODEL = Some ''m'', CLI_VERSION = None,
      process_version = ''v20'', process_platform = ''linux'', process_arch = ''x64''\<rparr>"

definition partial_process :: process_env where
  "partial_process = generic_process\<lparr>LLM_API_KEY := None\<rparr>"

definition multi_llm_config :: ContentGeneratorConfig where
  "multi_llm_config =
     \<lparr>cg_model = ''m'', cg_apiKey = None, vertexai = None, authType = Some ''multi-llm'',
      cg_proxy = None\<rparr>"

definition html_response :: http_response where
  "html_response = \<lparr>status = 404, text_result = Inr ''<html>Not Found</html>''\<rparr>"

definition long_brace_text :: string where
  "long_brace_text = CHR ''{'' # replicate 300 (CHR ''x'')"

definition unreadable_response :: http_response where
  "unreadable_response = \<lparr>status = 500, text_result = Inl ''boom''\<rparr>"

definition spaced_object_response :: http_response where
  "spaced_object_response = \<lparr>status = 401, text_result = Inr ''{ }''\<rparr>"

definition env_answering :: "http_response \<Rightarrow> environment" where
  "env_answering response =
     \<lparr>fetch = (\<lambda>request. Inr response), parse_error_message = (\<lambda>t. ''Unexpected token'')\<rparr>"

definition chat_config :: LLMProviderConfig where
  "chat_config =
     \<lparr>apiUrl = ''http://localhost:8080/v1/chat/completions'', apiKey = None,
      model = ''m'', headers = None, proxy = None\<rparr>"

definition hi_request :: GenerateContentParameters where
  "hi_request = \<lparr>gp_model = ''m'', contents = JStr ''hi'', config = None\<rparr>"



definition completion_config :: LLMProviderConfig where
  "completion_config = chat_config\<lparr>apiUrl := ''http://localhost:8080/v1/completions''\<rparr>"

definition close_only_response :: GenerateContentResponse where
  "close_only_response =
     \<lparr>candidates = Some [\<lparr>content = Some \<lparr>parts = Some
        [[(''text'', JStr (''foo'' @ closing_fence))]],
        role = Some ''model''\<rparr>\<rparr>], usageMetadata = None\<rparr>"

definition null_request :: GenerateContentParameters where
  "null_request = \<lparr>gp_model = ''m'', contents = JNull, config = None\<rparr>"

definition brace_response :: http_response where
  "brace_response = \<lparr>status = 500, text_result = Inr ''{x''\<rparr>"

definition login_config :: ContentGeneratorConfig where
  "login_config = multi_llm_config\<lparr>authType := Some ''oauth-personal''\<rparr>"

definition gemini_config :: ContentGeneratorConfig where
  "gemini_config = multi_llm_config\<lparr>authType := Some ''gemini-api-key'', cg_apiKey := Some []\<rparr>"


definition agent_config :: LLMProviderConfig where
  "agent_config =
     \<lparr>apiUrl = ''https://openrouter.ai/api/v1/chat/completions'', apiKey = Some ''k'',
      model = ''m'',
      headers = Some [(''User-Agent'', ''GeminiCLI/v20 (linux; x64)''),
                      (''Authorization'', ''static'')],
      proxy = None\<rparr>"



section \<open>Properties of the response extraction utilities\<close>

lemma drop_fence: "drop 3 (fence @ s) = s"
  by (simp add: fence_def)

lemma newline_not_lower: "\<not> is_lower (CHR 0x0A)"
  by (simp add: is_lower_def)

lemma dropWhile_tag:
  "list_all is_lower tag \<Longrightarrow> dropWhile is_lower (tag @ CHR 0x0A # body) = CHR 0x0A # body"
  by (induction tag) (simp_all add: newline_not_lower)

lemma starts_with_open_fence_intro:
  "list_all is_lower tag \<Longrightarrow> starts_with_open_fence (fence @ tag @ CHR 0x0A # body)"
  using dropWhile_tag [of tag body]
  by (simp add: starts_with_open_fence_def fence_def)

lemma starts_with_open_fence_iff:
  "starts_with_open_fence s \<longleftrightarrow>
     (\<exists>tag body. s = fence @ tag @ CHR 0x0A # body \<and> list_all is_lower tag)"
proof
  assume h: "starts_with_open_fence s"
  then obtain r where s: "s = fence @ r"
    by (auto simp: starts_with_open_fence_def prefix_def)
  from h s obtain rest where d: "dropWhile is_lower r = CHR 0x0A # rest"
    by (auto simp: starts_with_open_fence_def fence_def split: list.splits)
  have "r = takeWhile is_lower r @ CHR 0x0A # rest"
    using d takeWhile_dropWhile_id [of is_lower r] by simp
  moreover have "list_all is_lower (takeWhile is_lower r)"
    by (simp add: list_all_iff) (meson set_takeWhileD)
  ultimately show "\<exists>tag body. s = fence @ tag @ CHR 0x0A # body \<and> list_all is_lower tag"
    using s by blast
next
  assume "\<exists>tag body. s = fence @ tag @ CHR 0x0A # body \<and> list_all is_lower tag"
  then show "starts_with_open_fence s"
    using starts_with_open_fence_intro by blast
qed

lemma replace_open_fence_match:
  "list_all is_lower tag \<Longrightarrow> replace_open_fence (fence @ tag @ CHR 0x0A # body) = body"
  using dropWhile_tag [of tag body] starts_with_open_fence_intro [of tag body]
  by (simp add: replace_open_fence_def fence_def)

lemma replace_open_fence_nomatch:
  "\<not> starts_with_open_fence s \<Longrightarrow> replace_open_fence s = s"
  by (simp add: replace_open_fence_def)

lemma replace_close_fence_match: "replace_close_fence (b @ closing_fence) = b"
  by (simp add: replace_close_fence_def closing_fence_def fence_def suffix_def)

lemma replace_close_fence_nomatch:
  "\<not> suffix closing_fence s \<Longrightarrow> replace_close_fence s = s"
  by (simp add: replace_close_fence_def)

lemma join_empty_sep: "join [] xs = concat xs"
  by (induction "[] :: string" xs rule: join.induct) simp_all

lemma stringify_2_array_nonempty: "JSON_stringify_2 (JArr xs) \<noteq> []"
  by (simp add: JSON_stringify_2_def wrap_members_def)

lemma stringify_2_array_hd: "hd (JSON_stringify_2 (JArr xs)) = CHR ''[''"
  by (simp add: JSON_stringify_2_def wrap_members_def)

lemma first_candidate_texts_fenced:
  "first_candidate_texts fenced_response = [fence @ ''js'' @ [CHR 0x0A], ''foo'' @ closing_fence]"
  by (simp add: first_candidate_texts_def first_candidate_parts_def fenced_response_def
      textSegments_def List.map_filter_def part_text_def)

text \<open>
  C4 (as amended). \<open>getResponseText\<close> is absent exactly when the first candidate has no
  text part. Otherwise it is the in-order concatenation of the text parts, from which
  the two fence markers are removed independently of each other: an opening marker
  (three backquotes, lower-case letters, a line feed) at the start is removed whether
  or not the text ends with the closing marker, and the closing marker (a line feed and
  three backquotes) at the end of what remains is removed whether or not the text
  started with an opening marker.
\<close>

theorem getResponseText_fences:
  "(getResponseText r = None \<longleftrightarrow> first_candidate_texts r = []) \<and>
   (\<forall>tag body.
      first_candidate_texts r \<noteq> [] \<and>
      concat (first_candidate_texts r) = fence @ tag @ CHR 0x0A # body \<and>
      list_all is_lower tag \<longrightarrow>
      getResponseText r =
        Some (if suffix closing_fence body then take (length body - 4) body else body)) \<and>
   (first_candidate_texts r \<noteq> [] \<and>
    \<not> starts_with_open_fence (concat (first_candidate_texts r)) \<longrightarrow>
      getResponseText r =
        Some (if suffix closing_fence (concat (first_candidate_texts r))
              then take (length (concat (first_candidate_texts r)) - 4)
                     (concat (first_candidate_texts r))
              else concat (first_candidate_texts r)))"
proof (cases "first_candidate_parts r")
  case None
  then show ?thesis
    by (simp add: getResponseText_def first_candidate_texts_def)
next
  case (Some ps)
  have texts: "first_candidate_texts r = textSegments ps"
    using Some by (simp add: first_candidate_texts_def)
  have result: "textSegments ps \<noteq> [] \<Longrightarrow>
      getResponseText r = Some (replace_close_fence (replace_open_fence (concat (textSegments ps))))"
    using Some by (simp add: getResponseText_def stripMarkdownCodeBlocks_def join_empty_sep)
  have absent: "getResponseText r = None \<longleftrightarrow> textSegments ps = []"
    using Some by (simp add: getResponseText_def)
  have opened: "getResponseText r =
        Some (if suffix closing_fence body then take (length body - 4) body else body)"
    if "textSegments ps \<noteq> []" "concat (textSegments ps) = fence @ tag @ CHR 0x0A # body"
       "list_all is_lower tag" for tag body
    using that result replace_open_fence_match [of tag body]
    by (simp add: replace_close_fence_def)
  have unopened: "getResponseText r =
        Some (if suffix closing_fence (concat (textSegments ps))
              then take (length (concat (textSegments ps)) - 4) (concat (textSegments ps))
              else concat (textSegments ps))"
    if "textSegments ps \<noteq> []" "\<not> starts_with_open_fence (concat (textSegments ps))"
    using that result replace_open_fence_nomatch [of "concat (textSegments ps)"]
    by (simp add: replace_close_fence_def)
  show ?thesis
    unfolding texts using absent opened unopened by blast
qed

lemma first_candidate_texts_close_only:
  "first_candidate_texts close_only_response = [''foo'' @ closing_fence]"
  by (simp add: first_candidate_texts_def first_candidate_parts_def close_only_response_def
      textSegments_def List.map_filter_def part_text_def)

theorem getResponseText_fences_witness:
  "first_candidate_texts fenced_response \<noteq> [] \<and>
   concat (first_candidate_texts fenced_response)
     = fence @ ''js'' @ CHR 0x0A # (''foo'' @ closing_fence) \<and>
   list_all is_lower ''js'' \<and>
   getResponseText fenced_response = Some ''foo'' \<and>
   first_candidate_texts close_only_response \<noteq> [] \<and>
   \<not> starts_with_open_fence (concat (first_candidate_texts close_only_response)) \<and>
   getResponseText close_only_response = Some ''foo''"
proof -
  have a: "first_candidate_texts fenced_response \<noteq> []"
    by (simp add: first_candidate_texts_fenced)
  have b: "concat (first_candidate_texts fenced_response)
     = fence @ ''js'' @ CHR 0x0A # (''foo'' @ closing_fence)"
    by (simp add: first_candidate_texts_fenced)
  have c: "list_all is_lower ''js''"
    by (simp add: is_lower_def)
  from getResponseText_fences [of fenced_response] a b c
  have "getResponseText fenced_response =
        Some (if suffix closing_fence (''foo'' @ closing_fence)
              then take (length (''foo'' @ closing_fence) - 4) (''foo'' @ closing_fence)
              else ''foo'' @ closing_fence)"
    by blast
  then have d: "getResponseText fenced_response = Some ''foo''"
    by (simp add: closing_fence_def fence_def suffix_def)
  have e: "first_candidate_texts close_only_response \<noteq> []"
    by (simp add: first_candidate_texts_close_only)
  have f: "\<not> starts_with_open_fence (concat (first_candidate_texts close_only_response))"
    by (simp add: first_candidate_texts_close_only starts_with_open_fence_def fence_def)
  from getResponseText_fences [of close_only_response] e f
  have "getResponseText close_only_response =
        Some (if suffix closing_fence (concat (first_candidate_texts close_only_response))
              then take (length (concat (first_candidate_texts close_only_response)) - 4)
                     (concat (first_candidate_texts close_only_response))
              else concat (first_candidate_texts close_only_response))"
    by blast
  then have g: "getResponseText close_only_response = Some ''foo''"
    by (simp add: first_candidate_texts_close_only closing_fence_def fence_def suffix_def)
  from a b c d e f g show ?thesis by blast
qed

text \<open>
  C4 as stated fails: with an opening marker and no closing marker the text is not
  returned unchanged, the opening marker is removed.
\<close>

theorem getResponseText_open_fence_only:
  "first_candidate_texts open_only_response = [fence @ ''js'' @ [CHR 0x0A] @ ''foo''] \<and>
   starts_with_open_fence (fence @ ''js'' @ [CHR 0x0A] @ ''foo'') \<and>
   \<not> suffix closing_fence (fence @ ''js'' @ [CHR 0x0A] @ ''foo'') \<and>
   getResponseText open_only_response = Some ''foo'' \<and>
   getResponseText open_only_response \<noteq> Some (fence @ ''js'' @ [CHR 0x0A] @ ''foo'')"
  by (simp add: first_candidate_texts_def first_candidate_parts_def open_only_response_def
      textSegments_def List.map_filter_def part_text_def getResponseText_def
      stripMarkdownCodeBlocks_def replace_open_fence_def replace_close_fence_def
      starts_with_open_fence_def closing_fence_def fence_def is_lower_def suffix_def)

lemma structured_empty_text:
  "structured (Some []) fcj = (if truthy_str fcj then fcj else None)"
  by (simp add: structured_def)

text \<open>
  C10. When the extracted text is the empty string, \<open>getStructuredResponse\<close> and
  \<open>getStructuredResponseFromParts\<close> treat it as absent: with function calls the result is
  their JSON alone (it starts with the bracket, not with a line feed), and without
  function calls the result is absent, never the empty string.
\<close>

theorem getStructuredResponse_empty_text:
  "(getResponseText r = Some [] \<longrightarrow>
      getStructuredResponse r =
        (case getFunctionCalls r of
           None \<Rightarrow> None
         | Some fcs \<Rightarrow> Some (JSON_stringify_2 (JArr fcs))) \<and>
      getStructuredResponse r \<noteq> Some [] \<and>
      (\<forall>j. getStructuredResponse r = Some j \<longrightarrow> hd j = CHR ''['')) \<and>
   (getResponseTextFromParts ps = Some [] \<longrightarrow>
      getStructuredResponseFromParts ps =
        (case getFunctionCallsFromParts ps of
           None \<Rightarrow> None
         | Some fcs \<Rightarrow> Some (JSON_stringify_2 (JArr fcs))) \<and>
      getStructuredResponseFromParts ps \<noteq> Some [] \<and>
      (\<forall>j. getStructuredResponseFromParts ps = Some j \<longrightarrow> hd j = CHR ''[''))"
proof -
  have shape: "structured (Some []) (case fc of None \<Rightarrow> None
                 | Some fcs \<Rightarrow> Some (JSON_stringify_2 (JArr fcs)))
        = (case fc of None \<Rightarrow> None | Some fcs \<Rightarrow> Some (JSON_stringify_2 (JArr fcs)))"
    for fc
    by (cases fc) (simp_all add: structured_empty_text stringify_2_array_nonempty)
  have good: "(case fc of None \<Rightarrow> None | Some fcs \<Rightarrow> Some (JSON_stringify_2 (JArr fcs)))
        \<noteq> Some [] \<and>
      (\<forall>j. (case fc of None \<Rightarrow> None | Some fcs \<Rightarrow> Some (JSON_stringify_2 (JArr fcs)))
                = Some j \<longrightarrow> hd j = CHR ''['')"
    for fc
    by (cases fc) (auto simp: stringify_2_array_nonempty stringify_2_array_hd)
  have one: "getResponseText r = Some [] \<Longrightarrow>
      getStructuredResponse r =
        (case getFunctionCalls r of
           None \<Rightarrow> None
         | Some fcs \<Rightarrow> Some (JSON_stringify_2 (JArr fcs)))"
    using shape [of "getFunctionCalls r"]
    by (simp add: getStructuredResponse_def getFunctionCallsAsJson_def)
  have two: "getResponseTextFromParts ps = Some [] \<Longrightarrow>
      getStructuredResponseFromParts ps =
        (case getFunctionCallsFromParts ps of
           None \<Rightarrow> None
         | Some fcs \<Rightarrow> Some (JSON_stringify_2 (JArr fcs)))"
    using shape [of "getFunctionCallsFromParts ps"]
    by (simp add: getStructuredResponseFromParts_def getFunctionCallsFromPartsAsJson_def)
  show ?thesis
    using one two good [of "getFunctionCalls r"] good [of "getFunctionCallsFromParts ps"]
    by simp
qed

lemma empty_text_parts_text: "getResponseTextFromParts (Some empty_text_parts) = Some []"
  by (simp add: getResponseTextFromParts_def empty_text_parts_def textSegments_def
      List.map_filter_def part_text_def stripMarkdownCodeBlocks_def replace_open_fence_def
      replace_close_fence_def starts_with_open_fence_def closing_fence_def fence_def)

lemma empty_text_parts_calls:
  "getFunctionCallsFromParts (Some empty_text_parts) = Some [JObj [(''name'', JStr ''f'')]]"
  by (simp add: getFunctionCallsFromParts_def empty_text_parts_def functionCallParts_def
      List.map_filter_def)

theorem getStructuredResponse_empty_text_witness:
  "getResponseTextFromParts (Some empty_text_parts) = Some [] \<and>
   getStructuredResponseFromParts (Some empty_text_parts)
     = Some (JSON_stringify_2 (JArr [JObj [(''name'', JStr ''f'')]])) \<and>
   getResponseText \<lparr>candidates = Some [\<lparr>content = Some \<lparr>parts = Some [[(''text'', JStr [])]],
        role = None\<rparr>\<rparr>], usageMetadata = None\<rparr> = Some [] \<and>
   getStructuredResponse \<lparr>candidates = Some [\<lparr>content = Some \<lparr>parts = Some [[(''text'', JStr [])]],
        role = None\<rparr>\<rparr>], usageMetadata = None\<rparr> = None"
proof -
  let ?r = "\<lparr>candidates = Some [\<lparr>content = Some \<lparr>parts = Some [[(''text'', JStr [])]],
        role = None\<rparr>\<rparr>], usageMetadata = None\<rparr>"
  have t: "getResponseText ?r = Some []"
    by (simp add: getResponseText_def first_candidate_parts_def textSegments_def
      List.map_filter_def part_text_def stripMarkdownCodeBlocks_def replace_open_fence_def
      replace_close_fence_def starts_with_open_fence_def closing_fence_def fence_def)
  have c: "getFunctionCalls ?r = None"
    by (simp add: getFunctionCalls_def first_candidate_parts_def functionCallParts_def
      List.map_filter_def)
  show ?thesis
    using getStructuredResponse_empty_text [of ?r "Some empty_text_parts"]
      t c empty_text_parts_text empty_text_parts_calls
    by simp
qed

section \<open>Properties of the adapter and of the factory\<close>

lemma str_includes_iff: "str_includes h n \<longleftrightarrow> (\<exists>p s. h = p @ n @ s)"
proof (induction h)
  case Nil
  then show ?case by simp
next
  case (Cons c cs)
  show ?case
  proof
    assume "str_includes (c # cs) n"
    then consider "prefix n (c # cs)" | "str_includes cs n" by auto
    then show "\<exists>p s. c # cs = p @ n @ s"
    proof cases
      case 1
      then obtain s where "c # cs = n @ s" by (auto simp: prefix_def)
      then have "c # cs = [] @ n @ s" by simp
      then show ?thesis by blast
    next
      case 2
      then obtain p s where "cs = p @ n @ s" using Cons.IH by blast
      then have "c # cs = (c # p) @ n @ s" by simp
      then show ?thesis by blast
    qed
  next
    assume "\<exists>p s. c # cs = p @ n @ s"
    then obtain p s where eq: "c # cs = p @ n @ s" by blast
    show "str_includes (c # cs) n"
    proof (cases p)
      case Nil
      then have "prefix n (c # cs)" using eq by (simp add: prefix_def)
      then show ?thesis by simp
    next
      case (Cons a p')
      then have "cs = p' @ n @ s" using eq by simp
      then have "str_includes cs n" using Cons.IH by blast
      then show ?thesis by simp
    qed
  qed
qed

lemma str_includes_suffix: "str_includes (a @ b) b"
proof -
  have "a @ b = a @ b @ []" by simp
  then show ?thesis unfolding str_includes_iff by blast
qed

lemma str_includes_api_openai:
  "str_includes url ''api.openai.com'' \<Longrightarrow> str_includes url ''openai.com''"
proof -
  assume "str_includes url ''api.openai.com''"
  then obtain p s where "url = p @ ''api.openai.com'' @ s"
    unfolding str_includes_iff by blast
  then have "url = (p @ ''api.'') @ ''openai.com'' @ s" by simp
  then show ?thesis unfolding str_includes_iff by blast
qed

lemma map_of_spread: "map_of (spread t s) = map_of t ++ map_of (rev s)"
proof (induction s arbitrary: t)
  case Nil
  then show ?case by (simp add: spread_def)
next
  case (Cons kv s)
  obtain k v where kv: "kv = (k, v)" by (cases kv)
  have "map_of (spread t (kv # s)) = map_of (spread (AList.update k v t) s)"
    by (simp add: spread_def kv)
  also have "\<dots> = (map_of t)(k \<mapsto> v) ++ map_of (rev s)"
    by (simp only: Cons.IH update_conv')
  also have "\<dots> = map_of t ++ map_of (rev (kv # s))"
    by (simp add: kv map_add_def fun_eq_iff split: option.splits)
  finally show ?case .
qed

lemma map_of_rev_None: "k \<notin> fst ` set s \<Longrightarrow> map_of (rev s) k = None"
  by (simp add: map_of_eq_None_iff)

text \<open>
  C9 (as amended). With a key, the composed headers are the default \<open>Content-Type\<close>,
  overridden by the static headers (by the last one, if the list repeats a name),
  overridden by the header derived from the key: \<open>Authorization\<close> with the bearer token
  when the URL contains \<open>openai.com\<close> or \<open>openrouter.ai\<close>, \<open>X-API-Key\<close> with the key
  otherwise. So every static header is sent with its value unless it has the name of
  the derived header, and then the derived value replaces it. \<open>Content-Type\<close> is
  \<open>application/json\<close> when no static header has that name; a static header of that name
  replaces it.
\<close>

theorem request_headers_precedence:
  "truthy_str (apiKey cfg) \<longrightarrow>
     (str_includes url ''openai.com'' \<or> str_includes url ''openrouter.ai'' \<longrightarrow>
        map_of (request_headers cfg url) =
          (map_of [(''Content-Type'', ''application/json'')]
             ++ map_of (rev (case headers cfg of None \<Rightarrow> [] | Some static \<Rightarrow> static)))
          (''Authorization'' \<mapsto> ''Bearer '' @ template (apiKey cfg))) \<and>
     (\<not> (str_includes url ''openai.com'' \<or> str_includes url ''openrouter.ai'') \<longrightarrow>
        map_of (request_headers cfg url) =
          (map_of [(''Content-Type'', ''application/json'')]
             ++ map_of (rev (case headers cfg of None \<Rightarrow> [] | Some static \<Rightarrow> static)))
          (''X-API-Key'' \<mapsto> template (apiKey cfg))) \<and>
     (\<forall>k v. map_of (rev (case headers cfg of None \<Rightarrow> [] | Some static \<Rightarrow> static)) k = Some v
            \<and> k \<noteq> ''Authorization'' \<and> k \<noteq> ''X-API-Key'' \<longrightarrow>
        map_of (request_headers cfg url) k = Some v) \<and>
     (str_includes url ''openai.com'' \<or> str_includes url ''openrouter.ai'' \<longrightarrow>
        map_of (request_headers cfg url) ''Authorization''
          = Some (''Bearer '' @ template (apiKey cfg))) \<and>
     (\<not> (str_includes url ''openai.com'' \<or> str_includes url ''openrouter.ai'') \<longrightarrow>
        map_of (request_headers cfg url) ''X-API-Key'' = Some (template (apiKey cfg))) \<and>
     (''Content-Type'' \<notin> fst ` set (case headers cfg of None \<Rightarrow> [] | Some static \<Rightarrow> static) \<longrightarrow>
        map_of (request_headers cfg url) ''Content-Type'' = Some ''application/json'') \<and>
     (\<forall>v. map_of (rev (case headers cfg of None \<Rightarrow> [] | Some static \<Rightarrow> static)) ''Content-Type''
            = Some v \<longrightarrow>
        map_of (request_headers cfg url) ''Content-Type'' = Some v)"
proof -
  let ?static = "case headers cfg of None \<Rightarrow> [] | Some static \<Rightarrow> static"
  let ?hs = "spread [(''Content-Type'', ''application/json'')] ?static"
  let ?m = "map_of [(''Content-Type'', ''application/json'')] ++ map_of (rev ?static)"
  have hs: "map_of ?hs = ?m"
    by (rule map_of_spread)
  have kept: "?m k = Some v" if "map_of (rev ?static) k = Some v" for k v
    using that by (simp add: map_add_def)
  have default: "''Content-Type'' \<notin> fst ` set ?static
      \<Longrightarrow> ?m ''Content-Type'' = Some ''application/json''"
    using map_of_rev_None [of "''Content-Type''" ?static] by (simp add: map_add_def)
  have bearer: "str_includes url ''openai.com'' \<or> str_includes url ''openrouter.ai'' \<Longrightarrow>
      truthy_str (apiKey cfg) \<Longrightarrow>
      request_headers cfg url
        = AList.update ''Authorization'' (''Bearer '' @ template (apiKey cfg)) ?hs"
    by (auto simp: request_headers_def Let_def)
  have plain: "\<not> (str_includes url ''openai.com'' \<or> str_includes url ''openrouter.ai'') \<Longrightarrow>
      truthy_str (apiKey cfg) \<Longrightarrow>
      request_headers cfg url = AList.update ''X-API-Key'' (template (apiKey cfg)) ?hs"
    using str_includes_api_openai [of url] by (auto simp: request_headers_def Let_def)
  show ?thesis
  proof (cases "str_includes url ''openai.com'' \<or> str_includes url ''openrouter.ai''")
    case True
    have eq: "truthy_str (apiKey cfg) \<Longrightarrow> map_of (request_headers cfg url)
        = ?m(''Authorization'' \<mapsto> ''Bearer '' @ template (apiKey cfg))"
      using bearer [OF True] hs by (simp only: update_conv')
    show ?thesis
      using True eq kept default by auto
  next
    case False
    have eq: "truthy_str (apiKey cfg) \<Longrightarrow> map_of (request_headers cfg url)
        = ?m(''X-API-Key'' \<mapsto> template (apiKey cfg))"
      using plain [OF False] hs by (simp only: update_conv')
    show ?thesis
      using False eq kept default by auto
  qed
qed

theorem request_headers_precedence_witness:
  "truthy_str (apiKey openai_config) \<and>
   str_includes (apiUrl openai_config) ''openai.com'' \<and>
   map_of (request_headers openai_config (apiUrl openai_config)) ''Authorization''
     = Some ''Bearer k'' \<and>
   map_of (request_headers openai_config (apiUrl openai_config)) ''Content-Type''
     = Some ''application/json'' \<and>
   truthy_str (apiKey local_config) \<and>
   \<not> (str_includes (apiUrl local_config) ''openai.com''
       \<or> str_includes (apiUrl local_config) ''openrouter.ai'') \<and>
   map_of (request_headers local_config (apiUrl local_config)) ''X-API-Key'' = Some ''k'' \<and>
   map_of (request_headers local_config (apiUrl local_config)) ''Content-Type''
     = Some ''text/plain'' \<and>
   truthy_str (apiKey agent_config) \<and>
   str_includes (apiUrl agent_config) ''openrouter.ai'' \<and>
   map_of (request_headers agent_config (apiUrl agent_config)) =
     [''Content-Type'' \<mapsto> ''application/json'',
      ''User-Agent'' \<mapsto> ''GeminiCLI/v20 (linux; x64)'',
      ''Authorization'' \<mapsto> ''Bearer k''] \<and>
   map_of (request_headers agent_config (apiUrl agent_config)) ''User-Agent''
     = Some ''GeminiCLI/v20 (linux; x64)''"
proof -
  have a: "truthy_str (apiKey openai_config)"
    by (simp add: openai_config_def)
  have b: "str_includes (apiUrl openai_config) ''openai.com''"
    by (simp add: openai_config_def)
  have c: "''Content-Type'' \<notin> fst ` set (case headers openai_config of None \<Rightarrow> []
                                              | Some static \<Rightarrow> static)"
    by (simp add: openai_config_def)
  have d: "template (apiKey openai_config) = ''k''"
    by (simp add: openai_config_def)
  have e: "truthy_str (apiKey local_config)"
    by (simp add: local_config_def)
  have f: "\<not> (str_includes (apiUrl local_config) ''openai.com''
       \<or> str_includes (apiUrl local_config) ''openrouter.ai'')"
    by (simp add: local_config_def)
  have g: "map_of (rev (case headers local_config of None \<Rightarrow> [] | Some static \<Rightarrow> static))
             ''Content-Type'' = Some ''text/plain''"
    by (simp add: local_config_def)
  have h: "template (apiKey local_config) = ''k''"
    by (simp add: local_config_def)
  have "map_of (request_headers openai_config (apiUrl openai_config)) ''Authorization''
       = Some (''Bearer '' @ template (apiKey openai_config)) \<and>
     map_of (request_headers openai_config (apiUrl openai_config)) ''Content-Type''
       = Some ''application/json''"
    using request_headers_precedence [of openai_config "apiUrl openai_config"] a b c
    by blast
  then have one: "map_of (request_headers openai_config (apiUrl openai_config)) ''Authorization''
       = Some ''Bearer k'' \<and>
     map_of (request_headers openai_config (apiUrl openai_config)) ''Content-Type''
       = Some ''application/json''"
    by (simp add: d)
  have "map_of (request_headers local_config (apiUrl local_config)) ''X-API-Key''
       = Some (template (apiKey local_config)) \<and>
     map_of (request_headers local_config (apiUrl local_config)) ''Content-Type''
       = Some ''text/plain''"
    using request_headers_precedence [of local_config "apiUrl local_config"] e f g
    by blast
  then have two: "map_of (request_headers local_config (apiUrl local_config)) ''X-API-Key''
       = Some ''k'' \<and>
     map_of (request_headers local_config (apiUrl local_config)) ''Content-Type''
       = Some ''text/plain''"
    by (simp add: h)
  have i: "truthy_str (apiKey agent_config)"
    by (simp add: agent_config_def)
  have j: "str_includes (apiUrl agent_config) ''openrouter.ai''"
    by (simp add: agent_config_def)
  have k: "template (apiKey agent_config) = ''k''"
    by (simp add: agent_config_def)
  have l: "map_of [(''Content-Type'', ''application/json'')]
      ++ map_of (rev (case headers agent_config of None \<Rightarrow> [] | Some static \<Rightarrow> static))
      = [''Content-Type'' \<mapsto> ''application/json'',
         ''Authorization'' \<mapsto> ''static'',
         ''User-Agent'' \<mapsto> ''GeminiCLI/v20 (linux; x64)'']"
    by (simp add: agent_config_def fun_eq_iff map_add_def)
  have "map_of (request_headers agent_config (apiUrl agent_config)) =
     (map_of [(''Content-Type'', ''application/json'')]
      ++ map_of (rev (case headers agent_config of None \<Rightarrow> [] | Some static \<Rightarrow> static)))
     (''Authorization'' \<mapsto> ''Bearer '' @ template (apiKey agent_config))"
    using request_headers_precedence [of agent_config "apiUrl agent_config"] i j
    by blast
  then have three: "map_of (request_headers agent_config (apiUrl agent_config)) =
     [''Content-Type'' \<mapsto> ''application/json'',
      ''User-Agent'' \<mapsto> ''GeminiCLI/v20 (linux; x64)'',
      ''Authorization'' \<mapsto> ''Bearer k'']"
    unfolding l k by (simp add: fun_eq_iff)
  then have four: "map_of (request_headers agent_config (apiUrl agent_config)) ''User-Agent''
     = Some ''GeminiCLI/v20 (linux; x64)''"
    by simp
  from a b e f i j one two three four show ?thesis by blast
qed

text \<open>
  C9 as stated fails: a static \<open>Content-Type\<close> header replaces \<open>application/json\<close>.
\<close>

theorem static_content_type_overrides:
  "map_of (request_headers local_config (apiUrl local_config)) ''Content-Type''
     = Some ''text/plain'' \<and>
   map_of (request_headers local_config (apiUrl local_config)) ''Content-Type''
     \<noteq> Some ''application/json'' \<and>
   map_of (request_headers local_config (apiUrl local_config)) ''X-API-Key'' = Some ''k''"
  by (simp add: request_headers_def local_config_def spread_def)

text \<open>
  C8. For every request \<open>countTokens\<close> returns a total of zero tokens; it does not fail
  and sends no request.
\<close>

theorem countTokens_zero:
  "fst (countTokens env cfg request) = Inr \<lparr>totalTokens = 0\<rparr> \<and>
   snd (countTokens env cfg request) = []"
  by (simp add: countTokens_def)

text \<open>
  C7 (as amended). For every request \<open>embedContent\<close> fails, before any request is
  sent, with the fixed message \<open>Embedding not supported for this provider\<close>.
\<close>

theorem embedContent_fails:
  "fst (embedContent env cfg request) = Inl (Error ''Embedding not supported for this provider'') \<and>
   snd (embedContent env cfg request) = []"
  by (simp add: embedContent_def)

text \<open>
  C7 as stated fails: the message does not contain the name of the provider, which is
  what \<open>getProviderName\<close> returns.
\<close>

theorem embedContent_message_without_name:
  "fst (embedContent example_env local_config JNull :: json io)
     = Inl (Error ''Embedding not supported for this provider'') \<and>
   \<not> str_includes ''Embedding not supported for this provider'' getProviderName"
  by (simp add: embedContent_def getProviderName_def)

text \<open>
  C6 (as amended). A call of the factory returns a promise and never throws. The
  promise is fulfilled with the OpenAI-compatible adapter exactly when the three
  variables (endpoint URL, key, model) are all set to non-empty strings, whatever the
  auth type is. Otherwise the auth type is resolved: the two login types go to the
  code-assist generator, the two vendor types to the wrapper, and with any other auth
  type (or none) the promise is rejected with an error whose message ends with that
  auth type.
\<close>

theorem createContentGenerator_selection:
  "((\<exists>pc. createContentGenerator penv cfg gc sid
            = Returns (Resolved (OpenAICompatibleProvider pc))) \<longleftrightarrow>
      truthy_str (LLM_API_URL penv) \<and> truthy_str (LLM_API_KEY penv)
        \<and> truthy_str (LLM_MODEL penv)) \<and>
   (truthy_str (LLM_API_URL penv) \<and> truthy_str (LLM_API_KEY penv)
      \<and> truthy_str (LLM_MODEL penv) \<longrightarrow>
      createContentGenerator penv cfg gc sid =
        Returns (Resolved (OpenAICompatibleProvider
               \<lparr>apiUrl = template (LLM_API_URL penv), apiKey = LLM_API_KEY penv,
                model = template (LLM_MODEL penv), headers = Some (user_agent penv),
                proxy = cg_proxy cfg\<rparr>))) \<and>
   (\<not> (truthy_str (LLM_API_URL penv) \<and> truthy_str (LLM_API_KEY penv)
         \<and> truthy_str (LLM_MODEL penv)) \<longrightarrow>
      (authType cfg = Some LOGIN_WITH_GOOGLE \<or> authType cfg = Some CLOUD_SHELL \<longrightarrow>
         createContentGenerator penv cfg gc sid =
           Returns (Resolved (CodeAssistContentGenerator (user_agent penv)
                                (template (authType cfg)) gc sid))) \<and>
      (authType cfg = Some USE_GEMINI \<or> authType cfg = Some USE_VERTEX_AI \<longrightarrow>
         createContentGenerator penv cfg gc sid =
           Returns (Resolved (GoogleGenAIWrapper
                                (if cg_apiKey cfg = Some [] then None else cg_apiKey cfg)
                                (vertexai cfg) (user_agent penv)))) \<and>
      (authType cfg \<noteq> Some LOGIN_WITH_GOOGLE \<and> authType cfg \<noteq> Some CLOUD_SHELL \<and>
       authType cfg \<noteq> Some USE_GEMINI \<and> authType cfg \<noteq> Some USE_VERTEX_AI \<longrightarrow>
         createContentGenerator penv cfg gc sid =
           Returns (Rejected (Error (''Error creating contentGenerator: Unsupported authType: ''
                                     @ template (authType cfg)))) \<and>
         str_includes (''Error creating contentGenerator: Unsupported authType: ''
                       @ template (authType cfg)) (template (authType cfg)))) \<and>
   (\<exists>p. createContentGenerator penv cfg gc sid = Returns p)"
proof -
  let ?generic = "truthy_str (LLM_API_URL penv) \<and> truthy_str (LLM_API_KEY penv)
        \<and> truthy_str (LLM_MODEL penv)"
  have named: "str_includes (''Error creating contentGenerator: Unsupported authType: ''
                       @ template (authType cfg)) (template (authType cfg))"
    by (rule str_includes_suffix)
  show ?thesis
  proof (cases ?generic)
    case True
    then show ?thesis
      by (simp add: createContentGenerator_def createLLMProvider_def async_def)
  next
    case False
    then show ?thesis
      using named
      by (simp add: createContentGenerator_def createLLMProvider_def async_def
          LOGIN_WITH_GOOGLE_def CLOUD_SHELL_def USE_GEMINI_def USE_VERTEX_AI_def)
  qed
qed

theorem createContentGenerator_selection_witness:
  "truthy_str (LLM_API_URL generic_process) \<and> truthy_str (LLM_API_KEY generic_process) \<and>
   truthy_str (LLM_MODEL generic_process) \<and>
   createContentGenerator generic_process multi_llm_config () None =
     Returns (Resolved (OpenAICompatibleProvider
            \<lparr>apiUrl = ''http://localhost:8080/v1/chat/completions'', apiKey = Some ''k'',
             model = ''m'', headers = Some [(''User-Agent'', ''GeminiCLI/v20 (linux; x64)'')],
             proxy = None\<rparr>)) \<and>
   createContentGenerator generic_process login_config () None =
     Returns (Resolved (OpenAICompatibleProvider
            \<lparr>apiUrl = ''http://localhost:8080/v1/chat/completions'', apiKey = Some ''k'',
             model = ''m'', headers = Some [(''User-Agent'', ''GeminiCLI/v20 (linux; x64)'')],
             proxy = None\<rparr>)) \<and>
   \<not> truthy_str (LLM_API_KEY partial_process) \<and>
   createContentGenerator partial_process multi_llm_config () None =
     Returns (Rejected
       (Error ''Error creating contentGenerator: Unsupported authType: multi-llm'')) \<and>
   createContentGenerator partial_process login_config () (Some ''s1'') =
     Returns (Resolved
       (CodeAssistContentGenerator [(''User-Agent'', ''GeminiCLI/v20 (linux; x64)'')]
            ''oauth-personal'' () (Some ''s1''))) \<and>
   createContentGenerator partial_process gemini_config () None =
     Returns (Resolved
       (GoogleGenAIWrapper None None [(''User-Agent'', ''GeminiCLI/v20 (linux; x64)'')]))"
proof -
  have a: "truthy_str (LLM_API_URL generic_process) \<and> truthy_str (LLM_API_KEY generic_process)
      \<and> truthy_str (LLM_MODEL generic_process)"
    by (simp add: generic_process_def)
  have b: "\<not> truthy_str (LLM_API_KEY partial_process)"
    by (simp add: partial_process_def)
  have c: "authType multi_llm_config \<noteq> Some LOGIN_WITH_GOOGLE \<and>
      authType multi_llm_config \<noteq> Some CLOUD_SHELL \<and>
      authType multi_llm_config \<noteq> Some USE_GEMINI \<and>
      authType multi_llm_config \<noteq> Some USE_VERTEX_AI"
    by (simp add: multi_llm_config_def LOGIN_WITH_GOOGLE_def CLOUD_SHELL_def USE_GEMINI_def
        USE_VERTEX_AI_def)
  have d: "user_agent generic_process = [(''User-Agent'', ''GeminiCLI/v20 (linux; x64)'')]
      \<and> user_agent partial_process = [(''User-Agent'', ''GeminiCLI/v20 (linux; x64)'')]"
    by (simp add: user_agent_def generic_process_def partial_process_def)
  have e: "template (authType multi_llm_config) = ''multi-llm''
      \<and> template (authType login_config) = ''oauth-personal''"
    by (simp add: multi_llm_config_def login_config_def)
  have f: "template (LLM_API_URL generic_process) = ''http://localhost:8080/v1/chat/completions''
      \<and> LLM_API_KEY generic_process = Some ''k'' \<and> template (LLM_MODEL generic_process) = ''m''
      \<and> cg_proxy multi_llm_config = None \<and> cg_proxy login_config = None"
    by (simp add: generic_process_def multi_llm_config_def login_config_def)
  have g: "authType login_config = Some LOGIN_WITH_GOOGLE"
    by (simp add: login_config_def LOGIN_WITH_GOOGLE_def)
  have h: "authType gemini_config = Some USE_GEMINI \<and> cg_apiKey gemini_config = Some []
      \<and> vertexai gemini_config = None"
    by (simp add: gemini_config_def multi_llm_config_def USE_GEMINI_def)
  show ?thesis
    using createContentGenerator_selection [of generic_process multi_llm_config "()" None]
      createContentGenerator_selection [of generic_process login_config "()" None]
      createContentGenerator_selection [of partial_process multi_llm_config "()" None]
      createContentGenerator_selection [of partial_process login_config "()" "Some ''s1''"]
      createContentGenerator_selection [of partial_process gemini_config "()" None]
      a b c d e f g h
    by simp
qed

text \<open>
  C6 as stated fails: with an auth type that no branch takes the call does not throw
  the error; it returns a promise that is rejected with it.
\<close>

theorem createContentGenerator_rejects_not_throws:
  "createContentGenerator partial_process multi_llm_config () None =
     Returns (Rejected
       (Error ''Error creating contentGenerator: Unsupported authType: multi-llm'')) \<and>
   createContentGenerator partial_process multi_llm_config () None \<noteq>
     Throws (Error ''Error creating contentGenerator: Unsupported authType: multi-llm'')"
  by (simp add: createContentGenerator_def async_def partial_process_def generic_process_def
      multi_llm_config_def LOGIN_WITH_GOOGLE_def CLOUD_SHELL_def USE_GEMINI_def
      USE_VERTEX_AI_def)

lemma trim_keeps_head: "\<not> js_space c \<Longrightarrow> \<exists>r. trim (c # s) = c # r"
proof -
  assume c: "\<not> js_space c"
  have "\<exists>zs. dropWhile js_space (rev s @ [c]) = zs @ [c]"
    using c by (simp add: dropWhile_append)
  then obtain zs where "dropWhile js_space (rev s @ [c]) = zs @ [c]" by blast
  then have "trim (c # s) = c # rev zs"
    using c by (simp add: trim_def)
  then show ?thesis by blast
qed

lemma read_failure_not_json: "\<not> looks_like_json (''Failed to read error response: '' @ m)"
proof -
  have "\<not> js_space (CHR ''F'')" by (simp add: js_space_def)
  then obtain r where "trim (CHR ''F'' # ''ailed to read error response: '' @ m) = CHR ''F'' # r"
    using trim_keeps_head by blast
  then show ?thesis by (simp add: looks_like_json_def)
qed

lemma makeApiRequest_failed:
  "fetch env \<lparr>req_url = url, req_method = ''POST'', req_headers = request_headers cfg url,
              req_body = JSON_stringify body\<rparr> = Inr response \<Longrightarrow>
   \<not> response_ok response \<Longrightarrow>
   fst (makeApiRequest env cfg url body) = failed_response env response"
  by (simp add: makeApiRequest_def)

lemma failed_response_not_json:
  "text_result response = Inr t \<Longrightarrow> \<not> looks_like_json t \<Longrightarrow>
   failed_response env response =
     Inl (Error (''API request failed with status '' @ number_toString (status response)
                 @ ''. Server returned: '' @ excerpt t))"
  by (simp add: failed_response_def)

lemma failed_response_raw:
  "text_result response = Inr t \<Longrightarrow> looks_like_json t \<Longrightarrow>
   failed_response env response =
     Inl (Error (''API request failed with status '' @ number_toString (status response)
                 @ '': '' @ t))"
  by (simp add: failed_response_def try_catch_def split: option.splits)

lemma failed_response_unreadable:
  "text_result response = Inl m \<Longrightarrow>
   failed_response env response =
     Inl (Error (''API request failed with status '' @ number_toString (status response)
                 @ ''. Server returned: '' @ excerpt (''Failed to read error response: '' @ m)))"
  using read_failure_not_json [of m] by (simp add: failed_response_def)

lemma excerpt_bounds:
  "length (excerpt t) \<le> 203 \<and> (length t \<le> 200 \<longrightarrow> excerpt t = t)
     \<and> (200 < length t \<longrightarrow> excerpt t = take 200 t @ ''...'')"
  by (simp add: excerpt_def)

lemma str_includes_middle: "str_includes (a @ b @ c) b"
  unfolding str_includes_iff by blast

lemma failed_response_api_error:
  assumes "text_result response = Inr t"
  shows "\<exists>m. failed_response env response = Inl (Error m) \<and> is_api_error (Error m) \<and>
           prefix (''API request failed with status '' @ number_toString (status response)) m \<and>
           str_includes m (number_toString (status response))"
proof (cases "looks_like_json t")
  case True
  let ?m = "''API request failed with status '' @ number_toString (status response) @ '': '' @ t"
  have "failed_response env response = Inl (Error ?m)"
    using failed_response_raw [OF assms True] .
  moreover have "is_api_error (Error ?m)"
    by (simp add: is_api_error_def)
  moreover have "prefix (''API request failed with status ''
      @ number_toString (status response)) ?m"
    by simp
  moreover have "str_includes ?m (number_toString (status response))"
    by (rule str_includes_middle)
  ultimately show ?thesis by blast
next
  case False
  let ?m = "''API request failed with status '' @ number_toString (status response)
      @ ''. Server returned: '' @ excerpt t"
  have "failed_response env response = Inl (Error ?m)"
    using failed_response_not_json [OF assms False] .
  moreover have "is_api_error (Error ?m)"
    by (simp add: is_api_error_def)
  moreover have "prefix (''API request failed with status ''
      @ number_toString (status response)) ?m"
    by simp
  moreover have "str_includes ?m (number_toString (status response))"
    by (rule str_includes_middle)
  ultimately show ?thesis by blast
qed

text \<open>
  C2 (as amended). On a status outside 200 to 299 whose body can be read, the call
  fails, whatever the body is (JSON or not), with an error whose message starts with
  \<open>API request failed with status\<close> and the status, and so contains the status.
  When the trimmed body starts with neither a brace nor a bracket, the message ends
  with the excerpt of the body: all of it up to 200 characters, the first 200 and
  three dots beyond. When the body starts with a brace or a bracket and is not JSON,
  the message ends with the whole body, however long.
\<close>

theorem makeApiRequest_api_error:
  "fetch env \<lparr>req_url = url, req_method = ''POST'', req_headers = request_headers cfg url,
              req_body = JSON_stringify body\<rparr> = Inr response
     \<and> \<not> response_ok response \<and> text_result response = Inr t \<longrightarrow>
   (\<exists>m. fst (makeApiRequest env cfg url body) = Inl (Error m) \<and> is_api_error (Error m) \<and>
        prefix (''API request failed with status '' @ number_toString (status response)) m \<and>
        str_includes m (number_toString (status response))) \<and>
   (\<not> looks_like_json t \<longrightarrow>
      fst (makeApiRequest env cfg url body) =
        Inl (Error (''API request failed with status '' @ number_toString (status response)
                    @ ''. Server returned: '' @ excerpt t))) \<and>
   (looks_like_json t \<and> JSON_parse t = None \<longrightarrow>
      fst (makeApiRequest env cfg url body) =
        Inl (Error (''API request failed with status '' @ number_toString (status response)
                    @ '': '' @ t))) \<and>
   length (excerpt t) \<le> 203 \<and> (length t \<le> 200 \<longrightarrow> excerpt t = t) \<and>
   (200 < length t \<longrightarrow> excerpt t = take 200 t @ ''...'')"
  using makeApiRequest_failed [of env url cfg body response]
    failed_response_api_error [of response t env]
    failed_response_not_json [of response t env] failed_response_raw [of response t env]
    excerpt_bounds [of t]
  by simp

lemma number_toString_404: "number_toString 404 = ''404''"
  by (simp add: number_toString.simps)

lemma number_toString_500: "number_toString 500 = ''500''"
  by (simp add: number_toString.simps)

lemma number_toString_401: "number_toString 401 = ''401''"
  by (simp add: number_toString.simps)

lemma parse_members_x: "parse_members n (CHR ''x'' # r) = None"
  by (cases n) (simp_all add: json_ws_def)

lemma parse_value_brace_x: "parse_value n (CHR ''{'' # CHR ''x'' # r) = None"
  by (cases n) (simp_all add: json_ws_def parse_members_x)

lemma spaced_object_parses: "JSON_parse ''{ }'' = Some (JObj [])"
  by code_simp

theorem makeApiRequest_api_error_witness:
  "fetch (env_answering html_response)
     \<lparr>req_url = apiUrl local_config, req_method = ''POST'',
      req_headers = request_headers local_config (apiUrl local_config),
      req_body = JSON_stringify (JObj [])\<rparr> = Inr html_response \<and>
   \<not> response_ok html_response \<and>
   text_result html_response = Inr ''<html>Not Found</html>'' \<and>
   \<not> looks_like_json ''<html>Not Found</html>'' \<and>
   fst (makeApiRequest (env_answering html_response) local_config (apiUrl local_config)
          (JObj [])) =
     Inl (Error ''API request failed with status 404. Server returned: <html>Not Found</html>'') \<and>
   \<not> response_ok brace_response \<and>
   text_result brace_response = Inr ''{x'' \<and>
   looks_like_json ''{x'' \<and> JSON_parse ''{x'' = None \<and>
   fst (makeApiRequest (env_answering brace_response) local_config (apiUrl local_config)
          (JObj [])) =
     Inl (Error ''API request failed with status 500: {x'') \<and>
   \<not> response_ok spaced_object_response \<and>
   text_result spaced_object_response = Inr ''{ }'' \<and>
   JSON_parse ''{ }'' = Some (JObj []) \<and>
   (\<exists>m. fst (makeApiRequest (env_answering spaced_object_response) local_config
               (apiUrl local_config) (JObj [])) = Inl (Error m) \<and>
        is_api_error (Error m) \<and>
        prefix ''API request failed with status 401'' m \<and> str_includes m ''401'')"
proof -
  have a: "fetch (env_answering r)
     \<lparr>req_url = apiUrl local_config, req_method = ''POST'',
      req_headers = request_headers local_config (apiUrl local_config),
      req_body = JSON_stringify (JObj [])\<rparr> = Inr r" for r
    by (simp add: env_answering_def)
  have b: "\<not> response_ok html_response"
    by (simp add: response_ok_def html_response_def)
  have c: "text_result html_response = Inr ''<html>Not Found</html>''"
    by (simp add: html_response_def)
  have d: "\<not> looks_like_json ''<html>Not Found</html>''"
    by (simp add: looks_like_json_def trim_def js_space_def)
  have e: "excerpt ''<html>Not Found</html>'' = ''<html>Not Found</html>''"
    by (simp add: excerpt_def)
  have f: "status html_response = 404"
    by (simp add: html_response_def)
  have one: "fst (makeApiRequest (env_answering html_response) local_config
       (apiUrl local_config) (JObj [])) =
     Inl (Error ''API request failed with status 404. Server returned: <html>Not Found</html>'')"
    using makeApiRequest_api_error [of "env_answering html_response" "apiUrl local_config"
        local_config "JObj []" html_response "''<html>Not Found</html>''"]
      a [of html_response] b c d e f number_toString_404
    by simp
  have g: "\<not> response_ok brace_response"
    by (simp add: response_ok_def brace_response_def)
  have h: "text_result brace_response = Inr ''{x''"
    by (simp add: brace_response_def)
  have i: "looks_like_json ''{x''"
    by (simp add: looks_like_json_def trim_def js_space_def)
  have j: "JSON_parse ''{x'' = None"
    by (simp add: JSON_parse_def parse_value_brace_x)
  have k: "status brace_response = 500"
    by (simp add: brace_response_def)
  have two: "fst (makeApiRequest (env_answering brace_response) local_config
       (apiUrl local_config) (JObj [])) =
     Inl (Error ''API request failed with status 500: {x'')"
    using makeApiRequest_api_error [of "env_answering brace_response" "apiUrl local_config"
        local_config "JObj []" brace_response "''{x''"]
      a [of brace_response] g h i j k number_toString_500
    by simp
  have l: "\<not> response_ok spaced_object_response"
    by (simp add: response_ok_def spaced_object_response_def)
  have m: "text_result spaced_object_response = Inr ''{ }''"
    by (simp add: spaced_object_response_def)
  have n: "status spaced_object_response = 401"
    by (simp add: spaced_object_response_def)
  have three: "\<exists>m. fst (makeApiRequest (env_answering spaced_object_response) local_config
               (apiUrl local_config) (JObj [])) = Inl (Error m) \<and>
        is_api_error (Error m) \<and>
        prefix ''API request failed with status 401'' m \<and> str_includes m ''401''"
    using makeApiRequest_api_error [of "env_answering spaced_object_response"
        "apiUrl local_config" local_config "JObj []" spaced_object_response "''{ }''"]
      a [of spaced_object_response] l m n number_toString_401
    by simp
  from a [of html_response] b c d one g h i j two l m spaced_object_parses three
  show ?thesis by blast
qed

lemma long_brace_text_unfold: "long_brace_text = CHR ''{'' # CHR ''x'' # replicate 299 (CHR ''x'')"
proof -
  have "replicate (Suc 299) (CHR ''x'') = CHR ''x'' # replicate 299 (CHR ''x'')"
    by (rule replicate_Suc)
  then show ?thesis by (simp add: long_brace_text_def)
qed

lemma long_brace_text_unparsed: "JSON_parse long_brace_text = None"
  by (simp add: JSON_parse_def long_brace_text_unfold parse_value_brace_x)

lemma long_brace_text_looks_like_json: "looks_like_json long_brace_text"
proof -
  have "\<not> js_space (CHR ''{'')" by (simp add: js_space_def)
  then obtain r where "trim long_brace_text = CHR ''{'' # r"
    unfolding long_brace_text_unfold using trim_keeps_head by blast
  then show ?thesis by (simp add: looks_like_json_def)
qed

lemma str_includes_set: "str_includes h n \<Longrightarrow> set n \<subseteq> set h"
  unfolding str_includes_iff by auto

lemma long_brace_text_no_dot: "CHR ''.'' \<notin> set long_brace_text"
  by (simp add: long_brace_text_def)

lemma excerpt_long_brace_text: "CHR ''.'' \<in> set (excerpt long_brace_text)"
  by (simp add: excerpt_def long_brace_text_def)

text \<open>
  C2 as stated fails: a body of 301 characters that starts with a brace and is not
  JSON is reported whole, and the message does not contain the truncated excerpt.
\<close>

theorem unparsed_body_is_not_truncated:
  "\<not> response_ok \<lparr>status = 500, text_result = Inr long_brace_text\<rparr> \<and>
   JSON_parse long_brace_text = None \<and>
   200 < length long_brace_text \<and>
   fst (makeApiRequest (env_answering \<lparr>status = 500, text_result = Inr long_brace_text\<rparr>)
          local_config (apiUrl local_config) (JObj [])) =
     Inl (Error (''API request failed with status 500: '' @ long_brace_text)) \<and>
   \<not> str_includes (''API request failed with status 500: '' @ long_brace_text)
        (excerpt long_brace_text)"
proof -
  let ?response = "\<lparr>status = 500, text_result = Inr long_brace_text\<rparr>"
  have a: "\<not> response_ok ?response"
    by (simp add: response_ok_def)
  have b: "200 < length long_brace_text"
    by (simp add: long_brace_text_def)
  have "fst (makeApiRequest (env_answering ?response) local_config (apiUrl local_config)
               (JObj [])) = failed_response (env_answering ?response) ?response"
    using a by (simp add: makeApiRequest_def env_answering_def)
  also have "\<dots> = Inl (Error (''API request failed with status '' @ number_toString 500
                               @ '': '' @ long_brace_text))"
    using failed_response_raw [of ?response long_brace_text "env_answering ?response"]
      long_brace_text_looks_like_json
    by simp
  finally have c: "fst (makeApiRequest (env_answering ?response) local_config
        (apiUrl local_config) (JObj [])) =
     Inl (Error (''API request failed with status 500: '' @ long_brace_text))"
    by (simp add: number_toString_500)
  have d: "\<not> str_includes (''API request failed with status 500: '' @ long_brace_text)
        (excerpt long_brace_text)"
  proof
    assume "str_includes (''API request failed with status 500: '' @ long_brace_text)
        (excerpt long_brace_text)"
    then have "set (excerpt long_brace_text)
        \<subseteq> set (''API request failed with status 500: '' @ long_brace_text)"
      by (rule str_includes_set)
    then have "CHR ''.'' \<in> set (''API request failed with status 500: '' @ long_brace_text)"
      using excerpt_long_brace_text by blast
    then show False
      using long_brace_text_no_dot by simp
  qed
  show ?thesis
    using a b c d long_brace_text_unparsed by simp
qed

text \<open>
  The \<open>throw\<close> with the serialised JSON is caught by the \<open>catch\<close> of its own \<open>try\<close>:
  a body that is JSON is reported as its raw text too, here with the space that the
  serialisation would not have.
\<close>

theorem parsed_body_is_reported_raw:
  "JSON_parse ''{ }'' = Some (JObj []) \<and> JSON_stringify (JObj []) = ''{}'' \<and>
   fst (makeApiRequest (env_answering spaced_object_response) local_config
          (apiUrl local_config) (JObj [])) =
     Inl (Error ''API request failed with status 401: { }'')"
proof -
  have a: "\<not> response_ok spaced_object_response"
    by (simp add: response_ok_def spaced_object_response_def)
  have b: "looks_like_json ''{ }''"
    by (simp add: looks_like_json_def trim_def js_space_def)
  have c: "JSON_stringify (JObj []) = ''{}''"
    by (simp add: JSON_stringify_def wrap_members_def)
  have "fst (makeApiRequest (env_answering spaced_object_response) local_config
          (apiUrl local_config) (JObj []))
        = failed_response (env_answering spaced_object_response) spaced_object_response"
    using a by (simp add: makeApiRequest_def env_answering_def)
  also have "\<dots> = Inl (Error (''API request failed with status '' @ number_toString 401
                               @ '': '' @ ''{ }''))"
    using failed_response_raw [of spaced_object_response "''{ }''"
        "env_answering spaced_object_response"] b
    by (simp add: spaced_object_response_def)
  finally show ?thesis
    using c spaced_object_parses by (simp add: number_toString_401)
qed

text \<open>
  C5 (as amended). On a status outside 200 to 299 whose body cannot be read, the
  failure to read is caught and its message becomes the text of the body: the call
  fails with the API error that carries the status and \<open>Failed to read error response:\<close>
  followed by the underlying message (as an excerpt of at most 200 characters).
\<close>

theorem makeApiRequest_unreadable_error_body:
  "fetch env \<lparr>req_url = url, req_method = ''POST'', req_headers = request_headers cfg url,
              req_body = JSON_stringify body\<rparr> = Inr response
     \<and> \<not> response_ok response \<and> text_result response = Inl m \<longrightarrow>
   fst (makeApiRequest env cfg url body) =
     Inl (Error (''API request failed with status '' @ number_toString (status response)
                 @ ''. Server returned: ''
                 @ excerpt (''Failed to read error response: '' @ m))) \<and>
   is_api_error (Error (''API request failed with status '' @ number_toString (status response)
                 @ ''. Server returned: ''
                 @ excerpt (''Failed to read error response: '' @ m))) \<and>
   \<not> is_network_error (Error (''API request failed with status ''
                 @ number_toString (status response) @ ''. Server returned: ''
                 @ excerpt (''Failed to read error response: '' @ m)))"
  using makeApiRequest_failed [of env url cfg body response]
    failed_response_unreadable [of response m env]
  by (simp add: is_api_error_def is_network_error_def)

theorem makeApiRequest_unreadable_error_body_witness:
  "fetch (env_answering unreadable_response)
     \<lparr>req_url = apiUrl local_config, req_method = ''POST'',
      req_headers = request_headers local_config (apiUrl local_config),
      req_body = JSON_stringify (JObj [])\<rparr> = Inr unreadable_response \<and>
   \<not> response_ok unreadable_response \<and>
   text_result unreadable_response = Inl ''boom'' \<and>
   fst (makeApiRequest (env_answering unreadable_response) local_config (apiUrl local_config)
          (JObj [])) =
     Inl (Error
       ''API request failed with status 500. Server returned: Failed to read error response: boom'')"
proof -
  have a: "fetch (env_answering unreadable_response)
     \<lparr>req_url = apiUrl local_config, req_method = ''POST'',
      req_headers = request_headers local_config (apiUrl local_config),
      req_body = JSON_stringify (JObj [])\<rparr> = Inr unreadable_response"
    by (simp add: env_answering_def)
  have b: "\<not> response_ok unreadable_response"
    by (simp add: response_ok_def unreadable_response_def)
  have c: "text_result unreadable_response = Inl ''boom''"
    by (simp add: unreadable_response_def)
  have d: "status unreadable_response = 500"
    by (simp add: unreadable_response_def)
  have e: "excerpt ''Failed to read error response: boom''
      = ''Failed to read error response: boom''"
    by (simp add: excerpt_def)
  show ?thesis
    using makeApiRequest_unreadable_error_body [of "env_answering unreadable_response"
        "apiUrl local_config" local_config "JObj []" unreadable_response "''boom''"]
      a b c d e number_toString_500
    by simp
qed

text \<open>
  C5 as stated fails: the error of an unreadable error body is the API error, not a
  network error.
\<close>

theorem unreadable_error_body_is_api_error:
  "\<not> response_ok unreadable_response \<and>
   text_result unreadable_response = Inl ''boom'' \<and>
   fst (makeApiRequest (env_answering unreadable_response) local_config (apiUrl local_config)
          (JObj [])) =
     Inl (Error
       ''API request failed with status 500. Server returned: Failed to read error response: boom'') \<and>
   \<not> is_network_error (Error
       ''API request failed with status 500. Server returned: Failed to read error response: boom'') \<and>
   is_api_error (Error
       ''API request failed with status 500. Server returned: Failed to read error response: boom'')"
proof -
  have a: "\<not> response_ok unreadable_response"
    by (simp add: response_ok_def unreadable_response_def)
  have e: "excerpt ''Failed to read error response: boom''
      = ''Failed to read error response: boom''"
    by (simp add: excerpt_def)
  have "fst (makeApiRequest (env_answering unreadable_response) local_config
          (apiUrl local_config) (JObj []))
        = failed_response (env_answering unreadable_response) unreadable_response"
    using a by (simp add: makeApiRequest_def env_answering_def)
  also have "\<dots> = Inl (Error
       ''API request failed with status 500. Server returned: Failed to read error response: boom'')"
    using failed_response_unreadable [of unreadable_response "''boom''"
        "env_answering unreadable_response"] e
    by (simp add: unreadable_response_def number_toString_500)
  finally show ?thesis
    using a by (simp add: unreadable_response_def is_api_error_def is_network_error_def)
qed

section \<open>Properties of the request translation\<close>

lemma array_map_total:
  "list_all (\<lambda>x. \<exists>y. f x = Inr y) xs \<Longrightarrow> \<exists>ys. array_map f xs = Inr ys"
  by (induction xs) auto

lemma array_filter_total:
  "list_all (\<lambda>x. \<exists>b. f x = Inr b) xs \<Longrightarrow> \<exists>ys. array_filter f xs = Inr ys \<and> set ys \<subseteq> set xs"
  by (induction xs) auto

lemma js_prop_total: "v \<noteq> JNull \<Longrightarrow> \<exists>r. js_prop v k = Inr r"
  by (cases v) simp_all

lemma part_text_truthy_total: "p \<noteq> JNull \<Longrightarrow> \<exists>b. part_text_truthy p = Inr b"
  using js_prop_total [of p "''text''"] by (auto simp: part_text_truthy_def)

lemma part_text_value_total: "p \<noteq> JNull \<Longrightarrow> \<exists>t. part_text_value p = Inr t"
  using js_prop_total [of p "''text''"]
  by (auto simp: part_text_value_def split: option.splits json.splits)

lemma partToPrompt_total: "p \<noteq> JNull \<Longrightarrow> \<exists>t. partToPrompt p = Inr t"
  using js_prop_total [of p "''text''"] by (auto simp: partToPrompt_def)

lemma textParts_content_total:
  assumes "list_all (\<lambda>p. p \<noteq> JNull) ps"
  shows "\<exists>t. textParts_content ps = Inr t"
proof -
  have "list_all (\<lambda>p. \<exists>b. part_text_truthy p = Inr b) ps"
    using assms part_text_truthy_total by (simp add: list_all_iff)
  then obtain kept where kept: "array_filter part_text_truthy ps = Inr kept" "set kept \<subseteq> set ps"
    using array_filter_total by blast
  have "list_all (\<lambda>p. \<exists>t. part_text_value p = Inr t) kept"
    using assms kept(2) part_text_value_total by (auto simp: list_all_iff)
  then obtain texts where "array_map part_text_value kept = Inr texts"
    using array_map_total by blast
  then show ?thesis
    using kept(1) by (simp add: textParts_content_def)
qed

lemma contentToMessage_total:
  assumes "content_ok c"
  shows "\<exists>m. contentToMessage c = Inr m"
proof (cases c)
  case (JObj kvs)
  show ?thesis
  proof (cases "map_of kvs ''parts''")
    case None
    then show ?thesis using JObj by (simp add: contentToMessage_def)
  next
    case (Some v)
    show ?thesis
    proof (cases v)
      case (JArr ps)
      then have "list_all (\<lambda>p. p \<noteq> JNull) ps"
        using assms JObj Some by (simp add: content_ok_def)
      then obtain t where "textParts_content ps = Inr t"
        using textParts_content_total by blast
      then show ?thesis
        using JObj Some JArr by (simp add: contentToMessage_def)
    qed (use assms JObj Some in \<open>simp_all add: content_ok_def contentToMessage_def\<close>)
  qed
qed (use assms in \<open>simp_all add: content_ok_def contentToMessage_def\<close>)

lemma contentToPrompt_total:
  assumes "content_ok c"
  shows "\<exists>t. contentToPrompt c = Inr t"
proof (cases c)
  case (JObj kvs)
  show ?thesis
  proof (cases "map_of kvs ''parts''")
    case None
    then show ?thesis using JObj by (simp add: contentToPrompt_def)
  next
    case (Some v)
    show ?thesis
    proof (cases v)
      case (JArr ps)
      then have "list_all (\<lambda>p. \<exists>t. partToPrompt p = Inr t) ps"
        using assms JObj Some partToPrompt_total by (simp add: content_ok_def list_all_iff)
      then obtain ts where "array_map partToPrompt ps = Inr ts"
        using array_map_total by blast
      then show ?thesis
        using JObj Some JArr by (simp add: contentToPrompt_def)
    qed (use assms JObj Some in \<open>simp_all add: content_ok_def contentToPrompt_def\<close>)
  qed
qed (use assms in \<open>simp_all add: content_ok_def contentToPrompt_def\<close>)

lemma copy_param_keys:
  assumes "copy_param c source target p = Inr q"
  shows "fst ` set q \<subseteq> insert target (fst ` set p)"
proof (cases "js_prop c source")
  case (Inl e)
  then show ?thesis using assms by (simp add: copy_param_def)
next
  case (Inr r)
  show ?thesis
  proof (cases r)
    case None
    then show ?thesis using assms Inr by (auto simp: copy_param_def)
  next
    case (Some v)
    then have "q = AList.update target v p"
      using assms Inr by (simp add: copy_param_def)
    then show ?thesis
      using dom_update [of target v p] by simp
  qed
qed

lemma copy_param_total:
  assumes "c \<noteq> JNull"
  shows "\<exists>q. copy_param c source target p = Inr q"
proof -
  obtain r where "js_prop c source = Inr r"
    using js_prop_total [OF assms] by blast
  then show ?thesis
    by (cases r) (simp_all add: copy_param_def)
qed

lemma convertConfig_keys:
  assumes "convertConfigToOpenAIParams c = Inr params"
  shows "fst ` set params \<subseteq> {''temperature'', ''max_tokens'', ''top_p'', ''stop''}"
proof -
  let ?cfg = "case c of None \<Rightarrow> JObj [] | Some x \<Rightarrow> x"
  from assms obtain p1 p2 p3 where
    s1: "copy_param ?cfg ''temperature'' ''temperature'' [] = Inr p1" and
    s2: "copy_param ?cfg ''maxOutputTokens'' ''max_tokens'' p1 = Inr p2" and
    s3: "copy_param ?cfg ''topP'' ''top_p'' p2 = Inr p3" and
    s4: "copy_param ?cfg ''stopSequences'' ''stop'' p3 = Inr params"
    by (auto simp: convertConfigToOpenAIParams_def Let_def split: sum.splits)
  have k1: "fst ` set p1 \<subseteq> {''temperature''}"
    using copy_param_keys [OF s1] by simp
  have k2: "fst ` set p2 \<subseteq> {''temperature'', ''max_tokens''}"
    using copy_param_keys [OF s2] k1 by blast
  have k3: "fst ` set p3 \<subseteq> {''temperature'', ''max_tokens'', ''top_p''}"
    using copy_param_keys [OF s3] k2 by blast
  show ?thesis
    using copy_param_keys [OF s4] k3 by blast
qed

lemma convertConfig_total:
  assumes "c \<noteq> Some JNull"
  shows "\<exists>params. convertConfigToOpenAIParams c = Inr params"
proof -
  let ?cfg = "case c of None \<Rightarrow> JObj [] | Some x \<Rightarrow> x"
  have n: "?cfg \<noteq> JNull" using assms by (cases c) auto
  obtain p1 where s1: "copy_param ?cfg ''temperature'' ''temperature'' [] = Inr p1"
    using copy_param_total [OF n] by blast
  obtain p2 where s2: "copy_param ?cfg ''maxOutputTokens'' ''max_tokens'' p1 = Inr p2"
    using copy_param_total [OF n] by blast
  obtain p3 where s3: "copy_param ?cfg ''topP'' ''top_p'' p2 = Inr p3"
    using copy_param_total [OF n] by blast
  obtain p4 where s4: "copy_param ?cfg ''stopSequences'' ''stop'' p3 = Inr p4"
    using copy_param_total [OF n] by blast
  show ?thesis
    using s1 s2 s3 s4 by (simp add: convertConfigToOpenAIParams_def Let_def)
qed

lemma has_field_spread:
  "has_field k (JObj (spread t s)) \<longleftrightarrow> k \<in> fst ` set t \<or> k \<in> fst ` set s"
proof -
  have "map_of (spread t s) k \<noteq> None \<longleftrightarrow> k \<in> dom (map_of t ++ map_of (rev s))"
    by (simp add: map_of_spread domIff)
  also have "\<dots> \<longleftrightarrow> k \<in> fst ` set t \<or> k \<in> fst ` set s"
    by (auto simp: dom_map_of_conv_image_fst)
  finally show ?thesis by (simp add: has_field_def)
qed

lemma prepare_total:
  assumes "request_ok request"
  shows "\<exists>body. prepareGenerateContentRequest cfg request chat = Inr body"
proof -
  have cs: "list_all content_ok (contentArray (contents request))"
    and c: "config request \<noteq> Some JNull"
    using assms by (simp_all add: request_ok_def)
  obtain params where p: "convertConfigToOpenAIParams (config request) = Inr params"
    using convertConfig_total [OF c] by blast
  have "list_all (\<lambda>x. \<exists>m. contentToMessage x = Inr m) (contentArray (contents request))"
    using cs contentToMessage_total by (simp add: list_all_iff)
  then obtain ms where m: "convertContentsToMessages (contents request) = Inr ms"
    using array_map_total unfolding convertContentsToMessages_def by blast
  have "list_all (\<lambda>x. \<exists>t. contentToPrompt x = Inr t) (contentArray (contents request))"
    using cs contentToPrompt_total by (simp add: list_all_iff)
  then obtain ts where "array_map contentToPrompt (contentArray (contents request)) = Inr ts"
    using array_map_total by blast
  then have t: "\<exists>prompt. convertContentsToPrompt (contents request) = Inr prompt"
    by (simp add: convertContentsToPrompt_def)
  show ?thesis
    using p m t by (auto simp: prepareGenerateContentRequest_def)
qed

lemma prepare_shape:
  assumes "prepareGenerateContentRequest cfg request chat = Inr body"
  shows "if chat then has_field ''messages'' body \<and> \<not> has_field ''prompt'' body
         else has_field ''prompt'' body \<and> \<not> has_field ''messages'' body"
proof -
  from assms obtain params where
    p: "convertConfigToOpenAIParams (config request) = Inr params"
    by (auto simp: prepareGenerateContentRequest_def split: if_splits sum.splits)
  have keys: "''messages'' \<notin> fst ` set params \<and> ''prompt'' \<notin> fst ` set params"
    using convertConfig_keys [OF p] by auto
  show ?thesis
    using assms p keys
    by (auto simp: prepareGenerateContentRequest_def has_field_spread split: if_splits sum.splits)
qed

lemma generateContent_sent:
  assumes "prepareGenerateContentRequest cfg request
             (str_includes (apiUrl cfg) ''chat/completions'') = Inr body"
  shows "snd (generateContent env cfg request) =
           [\<lparr>req_url = apiUrl cfg, req_method = ''POST'',
             req_headers = request_headers cfg (apiUrl cfg),
             req_body = JSON_stringify body\<rparr>]"
  using assms
  by (simp add: generateContent_def makeApiRequest_def Let_def split: sum.splits prod.splits)

lemma generateContent_not_sent:
  assumes "prepareGenerateContentRequest cfg request
             (str_includes (apiUrl cfg) ''chat/completions'') = Inl e"
  shows "generateContent env cfg request = (Inl e, [])"
  using assms by (simp add: generateContent_def Let_def)

text \<open>
  C1. On every call \<open>generateContent\<close> tests the endpoint URL of the configuration it
  is called with for \<open>chat/completions\<close>. When the translation of the request gives a
  body, exactly one request is sent, to that URL, with the serialised body, and the
  body has \<open>messages\<close> and no \<open>prompt\<close> if the URL contains the substring, and
  \<open>prompt\<close> and no \<open>messages\<close> otherwise. When the translation raises, nothing is
  sent. The translation gives a body for every request of which no content and no
  part is \<open>null\<close>, the \<open>parts\<close> of a content, when truthy, is an array, and the
  configuration is not \<open>null\<close>.
\<close>

theorem generateContent_request_shape:
  "(\<forall>body. prepareGenerateContentRequest cfg request
              (str_includes (apiUrl cfg) ''chat/completions'') = Inr body \<longrightarrow>
      snd (generateContent env cfg request) =
        [\<lparr>req_url = apiUrl cfg, req_method = ''POST'',
          req_headers = request_headers cfg (apiUrl cfg),
          req_body = JSON_stringify body\<rparr>] \<and>
      (if str_includes (apiUrl cfg) ''chat/completions''
       then has_field ''messages'' body \<and> \<not> has_field ''prompt'' body
       else has_field ''prompt'' body \<and> \<not> has_field ''messages'' body)) \<and>
   (\<forall>e. prepareGenerateContentRequest cfg request
           (str_includes (apiUrl cfg) ''chat/completions'') = Inl e \<longrightarrow>
      generateContent env cfg request = (Inl e, [])) \<and>
   (request_ok request \<longrightarrow>
      (\<exists>body. prepareGenerateContentRequest cfg request
                (str_includes (apiUrl cfg) ''chat/completions'') = Inr body))"
  using generateContent_sent [of cfg request _ env] prepare_shape [of cfg request]
    generateContent_not_sent [of cfg request _ env] prepare_total [of request cfg]
  by blast

lemma hi_request_chat_body:
  "prepareGenerateContentRequest chat_config hi_request True =
     Inr (JObj [(''model'', JStr ''m''),
                (''messages'', JArr [JObj [(''role'', JStr ''user''), (''content'', JStr ''hi'')]])])"
  by (simp add: prepareGenerateContentRequest_def convertContentsToMessages_def
      contentArray_def contentToMessage_def convertConfigToOpenAIParams_def copy_param_def
      spread_def hi_request_def chat_config_def)

lemma hi_request_completion_body:
  "prepareGenerateContentRequest completion_config hi_request False =
     Inr (JObj [(''model'', JStr ''m''), (''prompt'', JStr ''hi'')])"
  by (simp add: prepareGenerateContentRequest_def convertContentsToPrompt_def
      contentArray_def contentToPrompt_def convertConfigToOpenAIParams_def copy_param_def
      spread_def hi_request_def chat_config_def completion_config_def)

lemma chat_config_is_chat: "str_includes (apiUrl chat_config) ''chat/completions''"
  by (simp add: chat_config_def)

lemma completion_config_is_not_chat:
  "\<not> str_includes (apiUrl completion_config) ''chat/completions''"
  by (simp add: chat_config_def completion_config_def)

lemma null_request_raises:
  "prepareGenerateContentRequest chat_config null_request True = Inl TypeError"
  by (simp add: prepareGenerateContentRequest_def convertContentsToMessages_def
      contentArray_def contentToMessage_def null_request_def)

theorem generateContent_request_shape_witness:
  "str_includes (apiUrl chat_config) ''chat/completions'' \<and>
   request_ok hi_request \<and>
   snd (generateContent example_env chat_config hi_request) =
     [\<lparr>req_url = ''http://localhost:8080/v1/chat/completions'', req_method = ''POST'',
       req_headers = [(''Content-Type'', ''application/json'')],
       req_body = JSON_stringify
         (JObj [(''model'', JStr ''m''),
                (''messages'',
                 JArr [JObj [(''role'', JStr ''user''), (''content'', JStr ''hi'')]])])\<rparr>] \<and>
   \<not> str_includes (apiUrl completion_config) ''chat/completions'' \<and>
   snd (generateContent example_env completion_config hi_request) =
     [\<lparr>req_url = ''http://localhost:8080/v1/completions'', req_method = ''POST'',
       req_headers = [(''Content-Type'', ''application/json'')],
       req_body = JSON_stringify (JObj [(''model'', JStr ''m''), (''prompt'', JStr ''hi'')])\<rparr>] \<and>
   \<not> request_ok null_request \<and>
   generateContent example_env chat_config null_request = (Inl TypeError, [])"
proof -
  have h1: "request_headers chat_config ''http://localhost:8080/v1/chat/completions''
      = [(''Content-Type'', ''application/json'')]"
    by (simp add: request_headers_def chat_config_def spread_def)
  have h2: "request_headers completion_config ''http://localhost:8080/v1/completions''
      = [(''Content-Type'', ''application/json'')]"
    by (simp add: request_headers_def chat_config_def completion_config_def spread_def)
  have u1: "apiUrl chat_config = ''http://localhost:8080/v1/chat/completions''"
    by (simp add: chat_config_def)
  have u2: "apiUrl completion_config = ''http://localhost:8080/v1/completions''"
    by (simp add: completion_config_def)
  have ok: "request_ok hi_request"
    by (simp add: request_ok_def hi_request_def contentArray_def content_ok_def)
  have not_ok: "\<not> request_ok null_request"
    by (simp add: request_ok_def null_request_def contentArray_def content_ok_def)
  have b1: "prepareGenerateContentRequest chat_config hi_request
              (str_includes (apiUrl chat_config) ''chat/completions'') =
     Inr (JObj [(''model'', JStr ''m''),
                (''messages'', JArr [JObj [(''role'', JStr ''user''), (''content'', JStr ''hi'')]])])"
    using chat_config_is_chat hi_request_chat_body by simp
  have b2: "prepareGenerateContentRequest completion_config hi_request
              (str_includes (apiUrl completion_config) ''chat/completions'') =
     Inr (JObj [(''model'', JStr ''m''), (''prompt'', JStr ''hi'')])"
    using completion_config_is_not_chat hi_request_completion_body by simp
  have b3: "prepareGenerateContentRequest chat_config null_request
              (str_includes (apiUrl chat_config) ''chat/completions'') = Inl TypeError"
    using chat_config_is_chat null_request_raises by simp
  have s1: "snd (generateContent example_env chat_config hi_request) =
     [\<lparr>req_url = apiUrl chat_config, req_method = ''POST'',
       req_headers = request_headers chat_config (apiUrl chat_config),
       req_body = JSON_stringify
         (JObj [(''model'', JStr ''m''),
                (''messages'',
                 JArr [JObj [(''role'', JStr ''user''), (''content'', JStr ''hi'')]])])\<rparr>]"
    using generateContent_request_shape [of chat_config hi_request example_env] b1 by blast
  have s2: "snd (generateContent example_env completion_config hi_request) =
     [\<lparr>req_url = apiUrl completion_config, req_method = ''POST'',
       req_headers = request_headers completion_config (apiUrl completion_config),
       req_body = JSON_stringify (JObj [(''model'', JStr ''m''), (''prompt'', JStr ''hi'')])\<rparr>]"
    using generateContent_request_shape [of completion_config hi_request example_env] b2
    by blast
  have s3: "generateContent example_env chat_config null_request = (Inl TypeError, [])"
    using generateContent_request_shape [of chat_config null_request example_env] b3
    by blast
  show ?thesis
    using s1 s2 s3 ok not_ok chat_config_is_chat completion_config_is_not_chat
    by (simp add: h1 h2 u1 u2)
qed

























end
